theory Spec2Isabelle
  imports Complex_Main "HOL-Library.Word" "HOL-Library.Sublist" "HOL-Library.Log_Nat"
begin

section \<open>The exact SVM facilitator scheme (\<^verbatim>\<open>ExactSvmScheme\<close>)\<close>

text \<open>
  A shallow embedding of \<^verbatim>\<open>ExactSvmScheme\<close>: \<^verbatim>\<open>getExtra\<close>, \<^verbatim>\<open>getSigners\<close>,
  \<^verbatim>\<open>verify\<close>, \<^verbatim>\<open>settle\<close>, \<^verbatim>\<open>validateInstructions\<close>,
  \<^verbatim>\<open>instructionIncludesAccount\<close>, \<^verbatim>\<open>verifyComputeLimitInstruction\<close> and
  \<^verbatim>\<open>verifyComputePriceInstruction\<close>.

  \<^item> A JavaScript exception is a value of type \<open>exn\<close>; a call that may throw returns
    \<open>exn + 'a\<close> (\<open>Inl\<close> the thrown value), and every \<^verbatim>\<open>try\<close>/\<^verbatim>\<open>catch\<close> of the
    source is a case distinction on that sum. A call outside every \<^verbatim>\<open>try\<close> passes
    its \<open>Inl\<close> on as the result of the method (the promise rejects).
  \<^item> An optional property (\<^verbatim>\<open>x?: T\<close>) or a value that may be \<^verbatim>\<open>undefined\<close> is an
    \<open>option\<close>.
  \<^item> Library functions the scheme imports (transaction decoding, the instruction
    parsers, the derivation of the associated token account, \<^verbatim>\<open>BigInt\<close> on a string)
    are the fields of a record \<open>Env\<close>: the theorems hold for every behaviour of them.
  \<^item> The signer is a record of state transformers over an abstract signer state; the
    model logs each asynchronous signer call in a trace.
  \<^item> The numbers of \<^verbatim>\<open>getExtra\<close> are doubles: the product is rounded to the nearest
    double, a tie to even, before \<^verbatim>\<open>Math.floor\<close>.
\<close>

subsection \<open>Thrown values\<close>

text \<open>
  \<open>Error m\<close> is an instance of \<^verbatim>\<open>Error\<close> with message \<open>m\<close>; \<open>Thrown s\<close> is any other
  thrown value, \<open>s\<close> being what \<^verbatim>\<open>String(value)\<close> gives for it.
\<close>

datatype exn = Error (message: string) | Thrown string

text \<open>\<^verbatim>\<open>error instanceof Error ? error.message : String(error)\<close>\<close>

definition errorString :: "exn \<Rightarrow> string" where
  "errorString e = (case e of Error m \<Rightarrow> m | Thrown s \<Rightarrow> s)"

subsection \<open>Strings and numbers\<close>

text \<open>\<^verbatim>\<open>s.includes(sub)\<close> on strings: \<open>sub\<close> occurs in \<open>s\<close> as a contiguous run.\<close>

definition includes_str :: "string \<Rightarrow> string \<Rightarrow> bool" where
  "includes_str s sub = sublist sub s"

text \<open>The decimal digits a template literal prints for a non-negative integer.\<close>

fun string_of_nat :: "nat \<Rightarrow> string" where
  "string_of_nat n =
     (if n < 10 then [''0123456789'' ! n]
      else string_of_nat (n div 10) @ [''0123456789'' ! (n mod 10)])"

definition string_of_int :: "int \<Rightarrow> string" where
  "string_of_int k = (if k < 0 then CHR ''-'' # string_of_nat (nat (- k)) else string_of_nat (nat k))"

subsection \<open>Program addresses\<close>

text \<open>
  The three program addresses are constants of the Solana client libraries
  (\<^verbatim>\<open>@solana-program/compute-budget\<close>, \<^verbatim>\<open>@solana-program/token\<close>,
  \<^verbatim>\<open>@solana-program/token-2022\<close>). An \<^verbatim>\<open>Address\<close> is a string; \<^verbatim>\<open>toString()\<close> on it
  and \<^verbatim>\<open>address(s)\<close> on the string of an \<^verbatim>\<open>Address\<close> are the identity.
\<close>

definition COMPUTE_BUDGET_PROGRAM_ADDRESS :: string where
  "COMPUTE_BUDGET_PROGRAM_ADDRESS = ''ComputeBudget111111111111111111111111111111''"

definition TOKEN_PROGRAM_ADDRESS :: string where
  "TOKEN_PROGRAM_ADDRESS = ''TokenkegQfeZyiNwAJbNbGKPFXCWuBvf9Ss623VQ5DA''"

definition TOKEN_2022_PROGRAM_ADDRESS :: string where
  "TOKEN_2022_PROGRAM_ADDRESS = ''TokenzQdBNbLqP5VEhdkAS6EPFLC1PHnBqCXEpPxuEb''"

subsection \<open>Instructions\<close>

record AccountMeta =
  address :: string
  role :: nat

text \<open>
  A decompiled instruction, as \<^verbatim>\<open>validateInstructions\<close> types it:
  \<^verbatim>\<open>{ programAddress: Address; accounts?: readonly {address}[]; data?: Uint8Array }\<close>.
  \<^verbatim>\<open>VerifiableInstruction\<close> has the same three fields.
\<close>

record Instruction =
  programAddress :: string
  accounts :: "AccountMeta list option"
  data :: "8 word list option"

record InstructionVerifierContext =
  signerAddresses :: "string list"
  feePayer :: string
  instructionIndex :: nat

text \<open>
  \<^verbatim>\<open>InstructionVerifierConfig\<close>. The callback \<^verbatim>\<open>verify\<close> returns nothing or throws;
  the field is named \<open>verifyCallback\<close> here, \<open>verify\<close> being the scheme's method.
\<close>

record InstructionVerifierConfig =
  programIds :: "string list"
  allowedPositions :: "nat list option"
  verifyCallback :: "(Instruction \<Rightarrow> InstructionVerifierContext \<Rightarrow> exn + unit) option"

subsection \<open>Verification configuration\<close>

text \<open>\<^verbatim>\<open>SvmVerificationConfig\<close>: every field is optional.\<close>

record SvmVerificationConfig =
  maxInstructionCount :: "int option"
  allowAdditionalInstructions :: "bool option"
  allowedProgramIds :: "string list option"
  blockedProgramIds :: "string list option"
  customVerifiers :: "InstructionVerifierConfig list option"
  requireFeePayerNotInInstructions :: "bool option"

text \<open>\<^verbatim>\<open>Required<SvmVerificationConfig>\<close>: the merged configuration.\<close>

record RequiredSvmVerificationConfig =
  maxInstructionCount :: int
  allowAdditionalInstructions :: bool
  allowedProgramIds :: "string list"
  blockedProgramIds :: "string list"
  customVerifiers :: "InstructionVerifierConfig list"
  requireFeePayerNotInInstructions :: bool

definition DEFAULT_VERIFICATION_CONFIG :: RequiredSvmVerificationConfig where
  "DEFAULT_VERIFICATION_CONFIG =
     \<lparr> maxInstructionCount = 3,
       allowAdditionalInstructions = False,
       allowedProgramIds = [],
       blockedProgramIds = [],
       customVerifiers = [],
       requireFeePayerNotInInstructions = True \<rparr>"

text \<open>
  \<^verbatim>\<open>{ ...DEFAULT_VERIFICATION_CONFIG, ...this.verificationConfig }\<close>: a field the
  caller's configuration has replaces the default.
\<close>

definition mergeConfig ::
  "RequiredSvmVerificationConfig \<Rightarrow> SvmVerificationConfig \<Rightarrow> RequiredSvmVerificationConfig" where
  "mergeConfig d c =
     \<lparr> maxInstructionCount =
         (case SvmVerificationConfig.maxInstructionCount c of None \<Rightarrow> maxInstructionCount d | Some v \<Rightarrow> v),
       allowAdditionalInstructions =
         (case SvmVerificationConfig.allowAdditionalInstructions c of
            None \<Rightarrow> allowAdditionalInstructions d | Some v \<Rightarrow> v),
       allowedProgramIds =
         (case SvmVerificationConfig.allowedProgramIds c of None \<Rightarrow> allowedProgramIds d | Some v \<Rightarrow> v),
       blockedProgramIds =
         (case SvmVerificationConfig.blockedProgramIds c of None \<Rightarrow> blockedProgramIds d | Some v \<Rightarrow> v),
       customVerifiers =
         (case SvmVerificationConfig.customVerifiers c of None \<Rightarrow> customVerifiers d | Some v \<Rightarrow> v),
       requireFeePayerNotInInstructions =
         (case SvmVerificationConfig.requireFeePayerNotInInstructions c of
            None \<Rightarrow> requireFeePayerNotInInstructions d | Some v \<Rightarrow> v) \<rparr>"

subsection \<open>Imported library functions\<close>

text \<open>
  What \<^verbatim>\<open>parseSetComputeUnitPriceInstruction\<close> returns. The parser of
  \<^verbatim>\<open>@solana-program/compute-budget\<close> gives an object
  \<^verbatim>\<open>{ programAddress, data: { discriminator, microLamports } }\<close>: the parsed price is
  \<^verbatim>\<open>data.microLamports\<close>, here \<open>microLamports (priceData p)\<close>. The scheme does not read
  it there: it casts the object (\<^verbatim>\<open>as unknown as { microLamports: bigint }\<close>) and reads
  the property \<^verbatim>\<open>microLamports\<close> of the object itself. \<open>topLevelMicroLamports\<close> is what
  that read gives: \<open>None\<close>, that is \<^verbatim>\<open>undefined\<close>, for an object without such a property
  of its own, as every object of the parser's result type is.
\<close>

record SetComputeUnitPriceData =
  discriminator :: "8 word"
  microLamports :: int

record ParsedSetComputeUnitPrice =
  priceData :: SetComputeUnitPriceData
  topLevelMicroLamports :: "int option"

text \<open>
  What the two \<^verbatim>\<open>parseTransferCheckedInstruction\<close> functions return, as far as the scheme
  reads it: \<^verbatim>\<open>accounts.authority.address\<close>, \<^verbatim>\<open>accounts.mint.address\<close>,
  \<^verbatim>\<open>accounts.destination.address\<close> and \<^verbatim>\<open>data.amount\<close>.
\<close>

record ParsedTransferChecked =
  authority :: string
  mint :: string
  destination :: string
  transferAmount :: int

text \<open>
  The functions and the constant the scheme imports and this development does not define.
  \<open>'tx\<close> is a decoded transaction, \<open>'cm\<close> a compiled transaction message.
  \<^item> \<open>decodeCompiledMessage\<close> is \<^verbatim>\<open>getCompiledTransactionMessageDecoder().decode(transaction.messageBytes)\<close>;
  \<^item> \<open>decompileTransactionMessage\<close> gives \<^verbatim>\<open>decompiled.instructions\<close>, which may be undefined;
  \<^item> \<open>findAssociatedTokenPda mint owner tokenProgram\<close> gives the first component of the derived pair;
  \<^item> \<open>BigInt\<close> is the conversion of a string, which throws on a string that is no integer.
\<close>

record ('tx, 'cm) Env =
  decodeTransactionFromPayload :: "string \<Rightarrow> exn + 'tx"
  decodeCompiledMessage :: "'tx \<Rightarrow> exn + 'cm"
  decompileTransactionMessage :: "'cm \<Rightarrow> exn + Instruction list option"
  getTokenPayerFromTransaction :: "'tx \<Rightarrow> exn + string"
  parseSetComputeUnitLimitInstruction :: "Instruction \<Rightarrow> exn + unit"
  parseSetComputeUnitPriceInstruction :: "Instruction \<Rightarrow> exn + ParsedSetComputeUnitPrice"
  parseTransferCheckedInstructionToken :: "Instruction \<Rightarrow> exn + ParsedTransferChecked"
  parseTransferCheckedInstruction2022 :: "Instruction \<Rightarrow> exn + ParsedTransferChecked"
  findAssociatedTokenPda :: "string \<Rightarrow> string \<Rightarrow> string \<Rightarrow> exn + string"
  BigInt :: "string \<Rightarrow> exn + int"
  MAX_COMPUTE_UNIT_PRICE_MICROLAMPORTS :: int

subsection \<open>\<^verbatim>\<open>instructionIncludesAccount\<close>\<close>

definition instructionIncludesAccount :: "Instruction \<Rightarrow> string \<Rightarrow> bool" where
  "instructionIncludesAccount instruction accountAddress =
     (case accounts instruction of
        None \<Rightarrow> False
      | Some accs \<Rightarrow> list_ex (\<lambda>acc. address acc = accountAddress) accs)"

subsection \<open>\<^verbatim>\<open>verifyComputeLimitInstruction\<close> and \<^verbatim>\<open>verifyComputePriceInstruction\<close>\<close>

text \<open>\<^verbatim>\<open>!instruction.data || instruction.data[0] !== d\<close>; reading index 0 of an empty array
  gives \<^verbatim>\<open>undefined\<close>, which differs from \<open>d\<close>.\<close>

definition discriminatorDiffers :: "8 word list option \<Rightarrow> 8 word \<Rightarrow> bool" where
  "discriminatorDiffers d b =
     (case d of None \<Rightarrow> True | Some [] \<Rightarrow> True | Some (b0 # _) \<Rightarrow> b0 \<noteq> b)"

definition verifyComputeLimitInstruction :: "('tx, 'cm) Env \<Rightarrow> Instruction \<Rightarrow> exn + unit" where
  "verifyComputeLimitInstruction env instruction =
     (if programAddress instruction \<noteq> COMPUTE_BUDGET_PROGRAM_ADDRESS
         \<or> discriminatorDiffers (data instruction) 2
      then Inl (Error ''invalid_exact_svm_payload_transaction_instructions_compute_limit_instruction'')
      else case parseSetComputeUnitLimitInstruction env instruction of
             Inl _ \<Rightarrow>
               Inl (Error ''invalid_exact_svm_payload_transaction_instructions_compute_limit_instruction'')
           | Inr _ \<Rightarrow> Inr ())"

text \<open>
  The inner \<^verbatim>\<open>try\<close> block either parses and compares, throwing the \<^verbatim>\<open>too_high\<close> error
  itself, or the parser throws; the \<^verbatim>\<open>catch\<close> rethrows an \<^verbatim>\<open>Error\<close> whose message
  includes \<^verbatim>\<open>too_high\<close> and replaces every other thrown value.
  \<^verbatim>\<open>undefined > BigInt(...)\<close> is false.
\<close>

definition computePriceTryBlock :: "('tx, 'cm) Env \<Rightarrow> Instruction \<Rightarrow> exn + unit" where
  "computePriceTryBlock env instruction =
     (case parseSetComputeUnitPriceInstruction env instruction of
        Inl e \<Rightarrow> Inl e
      | Inr parsedInstruction \<Rightarrow>
          (case topLevelMicroLamports parsedInstruction of
             None \<Rightarrow> Inr ()
           | Some price \<Rightarrow>
               if price > MAX_COMPUTE_UNIT_PRICE_MICROLAMPORTS env
               then Inl (Error
                 ''invalid_exact_svm_payload_transaction_instructions_compute_price_instruction_too_high'')
               else Inr ()))"

definition verifyComputePriceInstruction :: "('tx, 'cm) Env \<Rightarrow> Instruction \<Rightarrow> exn + unit" where
  "verifyComputePriceInstruction env instruction =
     (if programAddress instruction \<noteq> COMPUTE_BUDGET_PROGRAM_ADDRESS
         \<or> discriminatorDiffers (data instruction) 3
      then Inl (Error ''invalid_exact_svm_payload_transaction_instructions_compute_price_instruction'')
      else case computePriceTryBlock env instruction of
             Inr _ \<Rightarrow> Inr ()
           | Inl e \<Rightarrow>
               (case e of
                  Error m \<Rightarrow>
                    if includes_str m ''too_high'' then Inl e
                    else Inl (Error
                      ''invalid_exact_svm_payload_transaction_instructions_compute_price_instruction'')
                | Thrown _ \<Rightarrow>
                    Inl (Error
                      ''invalid_exact_svm_payload_transaction_instructions_compute_price_instruction'')))"

subsection \<open>\<^verbatim>\<open>validateInstructions\<close>\<close>

record InstructionValidationResult =
  isValid :: bool
  reason :: "string option"
  transferInstructionIndex :: nat

text \<open>The two shapes of result the method returns; the transfer index is always 2.\<close>

definition invalidInstructions :: "string \<Rightarrow> InstructionValidationResult" where
  "invalidInstructions r = \<lparr> isValid = False, reason = Some r, transferInstructionIndex = 2 \<rparr>"

definition validInstructions :: InstructionValidationResult where
  "validInstructions = \<lparr> isValid = True, reason = None, transferInstructionIndex = 2 \<rparr>"

text \<open>
  The body of the loop over the additional instructions (\<^verbatim>\<open>for (let i = 3; ...)\<close>), for
  the instruction \<open>ix\<close> at index \<open>i\<close>: \<open>Some r\<close> is \<^verbatim>\<open>return\<close> of an invalid result with
  reason \<open>r\<close>, \<open>None\<close> goes on to the next instruction (by \<^verbatim>\<open>continue\<close> or by reaching the
  end of the body).
\<close>

definition validateAdditionalInstruction ::
  "RequiredSvmVerificationConfig \<Rightarrow> string list \<Rightarrow> string \<Rightarrow> nat \<Rightarrow> Instruction \<Rightarrow> string option" where
  "validateAdditionalInstruction config signerAddrs feePayerAddr i ix =
     (let programId = programAddress ix in
      if programId \<in> set (blockedProgramIds config)
      then Some (''invalid_exact_svm_payload_blocked_program_'' @ programId)
      else
        case find (\<lambda>v. programId \<in> set (programIds v)) (customVerifiers config) of
          Some customVerifier \<Rightarrow>
            if (case allowedPositions customVerifier of None \<Rightarrow> False | Some ps \<Rightarrow> i \<notin> set ps)
            then Some (''invalid_exact_svm_payload_instruction_position_'' @ programId
                       @ ''_at_'' @ string_of_nat i)
            else
              (case verifyCallback customVerifier of
                 None \<Rightarrow> None
               | Some callback \<Rightarrow>
                   (case callback ix
                           \<lparr> signerAddresses = signerAddrs, feePayer = feePayerAddr,
                             instructionIndex = i \<rparr> of
                      Inr _ \<Rightarrow> None
                    | Inl error \<Rightarrow>
                        Some (case error of
                                Error m \<Rightarrow> m
                              | Thrown _ \<Rightarrow> ''custom_verifier_failed_'' @ programId)))
        | None \<Rightarrow>
            if length (allowedProgramIds config) > 0 \<and> programId \<notin> set (allowedProgramIds config)
            then Some (''invalid_exact_svm_payload_program_not_allowed_'' @ programId)
            else None)"

text \<open>The loop: \<open>i\<close> is the index of the first instruction of the list.\<close>

fun validateAdditionalInstructions ::
  "RequiredSvmVerificationConfig \<Rightarrow> string list \<Rightarrow> string \<Rightarrow> nat \<Rightarrow> Instruction list \<Rightarrow> string option" where
  "validateAdditionalInstructions config signerAddrs feePayerAddr i [] = None"
| "validateAdditionalInstructions config signerAddrs feePayerAddr i (ix # rest) =
     (case validateAdditionalInstruction config signerAddrs feePayerAddr i ix of
        Some r \<Rightarrow> Some r
      | None \<Rightarrow> validateAdditionalInstructions config signerAddrs feePayerAddr (Suc i) rest)"

text \<open>
  The scan for the fee payer returns at the first instruction that includes it: the scan
  rejects exactly when some instruction includes it. Indices 0, 1 and 2 are read after the
  length check, so they are in range.
\<close>

definition validateInstructions ::
  "('tx, 'cm) Env \<Rightarrow> SvmVerificationConfig \<Rightarrow> Instruction list \<Rightarrow> string list \<Rightarrow> string
     \<Rightarrow> InstructionValidationResult" where
  "validateInstructions env verificationConfig instructions signerAddrs feePayerAddr =
     (let config = mergeConfig DEFAULT_VERIFICATION_CONFIG verificationConfig in
      if length instructions < 3
      then invalidInstructions ''invalid_exact_svm_payload_transaction_instructions_length_too_few''
      else if int (length instructions) > maxInstructionCount config
      then invalidInstructions
             (''invalid_exact_svm_payload_transaction_instructions_length_exceeds_max_''
              @ string_of_int (maxInstructionCount config))
      else if requireFeePayerNotInInstructions config
              \<and> list_ex (\<lambda>ix. instructionIncludesAccount ix feePayerAddr) instructions
      then invalidInstructions ''invalid_exact_svm_payload_fee_payer_in_instruction_accounts''
      else
        case verifyComputeLimitInstruction env (instructions ! 0) of
          Inl error \<Rightarrow> invalidInstructions (errorString error)
        | Inr _ \<Rightarrow>
        case verifyComputePriceInstruction env (instructions ! 1) of
          Inl error \<Rightarrow> invalidInstructions (errorString error)
        | Inr _ \<Rightarrow>
        let transferProgramId = programAddress (instructions ! 2) in
        if transferProgramId \<noteq> TOKEN_PROGRAM_ADDRESS \<and> transferProgramId \<noteq> TOKEN_2022_PROGRAM_ADDRESS
        then invalidInstructions ''invalid_exact_svm_payload_no_transfer_instruction_at_index_2''
        else if length instructions > 3
        then
          if \<not> allowAdditionalInstructions config
          then invalidInstructions ''invalid_exact_svm_payload_additional_instructions_not_allowed''
          else
            (case validateAdditionalInstructions config signerAddrs feePayerAddr 3 (drop 3 instructions) of
               Some r \<Rightarrow> invalidInstructions r
             | None \<Rightarrow> validInstructions)
        else validInstructions)"

subsection \<open>Requirements, payload and responses\<close>

text \<open>A value of \<^verbatim>\<open>Record<string, unknown>\<close>, as far as \<^verbatim>\<open>typeof v === "string"\<close> sees it.\<close>

datatype JsValue = JsString string | JsOther

text \<open>The \<^verbatim>\<open>extra\<close> record, of which only \<^verbatim>\<open>feePayer\<close> is read or written.\<close>

record Extra =
  feePayer :: "JsValue option"

record PaymentRequirements =
  scheme :: string
  network :: string
  asset :: string
  amount :: string
  payTo :: string
  extra :: "Extra option"

record ExactSvmPayloadV2 =
  transaction :: string

record PaymentPayload =
  accepted :: PaymentRequirements
  payload :: ExactSvmPayloadV2

record VerifyResponse =
  isValid :: bool
  invalidReason :: "string option"
  payer :: string

record SettleResponse =
  success :: bool
  transaction :: string
  network :: string
  payer :: string
  errorReason :: "string option"

text \<open>
  \<^verbatim>\<open>!requirements.extra?.feePayer || typeof requirements.extra.feePayer !== "string"\<close>
  fails exactly when \<^verbatim>\<open>extra\<close> is there and its \<^verbatim>\<open>feePayer\<close> is a non-empty string;
  \<open>requiredFeePayer\<close> is then that string.
\<close>

definition requiredFeePayer :: "PaymentRequirements \<Rightarrow> string option" where
  "requiredFeePayer requirements =
     (case extra requirements of
        None \<Rightarrow> None
      | Some e \<Rightarrow>
          (case feePayer e of
             Some (JsString s) \<Rightarrow> if s = [] then None else Some s
           | _ \<Rightarrow> None))"

subsection \<open>The signer\<close>

text \<open>
  \<^verbatim>\<open>FacilitatorSvmSigner\<close>. Each asynchronous method takes the signer's state and returns
  its outcome with the new state.
\<close>

record 's FacilitatorSvmSigner =
  getAddresses :: "'s \<Rightarrow> string list"
  signTransaction :: "string \<Rightarrow> string \<Rightarrow> string \<Rightarrow> 's \<Rightarrow> (exn + string) \<times> 's"
  simulateTransaction :: "string \<Rightarrow> string \<Rightarrow> 's \<Rightarrow> (exn + unit) \<times> 's"
  sendTransaction :: "string \<Rightarrow> string \<Rightarrow> 's \<Rightarrow> (exn + string) \<times> 's"
  confirmTransaction :: "string \<Rightarrow> string \<Rightarrow> 's \<Rightarrow> (exn + unit) \<times> 's"

datatype SignerCall =
  SignTransaction string string string
| SimulateTransaction string string
| SendTransaction string string
| ConfirmTransaction string string

text \<open>The signer's state and the calls made so far, oldest first.\<close>

record 's World =
  signerState :: 's
  calls :: "SignerCall list"

definition callSignTransaction ::
  "'s FacilitatorSvmSigner \<Rightarrow> string \<Rightarrow> string \<Rightarrow> string \<Rightarrow> 's World \<Rightarrow> (exn + string) \<times> 's World" where
  "callSignTransaction signer tx feePayerAddr net w =
     (case signTransaction signer tx feePayerAddr net (signerState w) of
        (r, s') \<Rightarrow> (r, \<lparr> signerState = s', calls = calls w @ [SignTransaction tx feePayerAddr net] \<rparr>))"

definition callSimulateTransaction ::
  "'s FacilitatorSvmSigner \<Rightarrow> string \<Rightarrow> string \<Rightarrow> 's World \<Rightarrow> (exn + unit) \<times> 's World" where
  "callSimulateTransaction signer tx net w =
     (case simulateTransaction signer tx net (signerState w) of
        (r, s') \<Rightarrow> (r, \<lparr> signerState = s', calls = calls w @ [SimulateTransaction tx net] \<rparr>))"

definition callSendTransaction ::
  "'s FacilitatorSvmSigner \<Rightarrow> string \<Rightarrow> string \<Rightarrow> 's World \<Rightarrow> (exn + string) \<times> 's World" where
  "callSendTransaction signer tx net w =
     (case sendTransaction signer tx net (signerState w) of
        (r, s') \<Rightarrow> (r, \<lparr> signerState = s', calls = calls w @ [SendTransaction tx net] \<rparr>))"

definition callConfirmTransaction ::
  "'s FacilitatorSvmSigner \<Rightarrow> string \<Rightarrow> string \<Rightarrow> 's World \<Rightarrow> (exn + unit) \<times> 's World" where
  "callConfirmTransaction signer signature net w =
     (case confirmTransaction signer signature net (signerState w) of
        (r, s') \<Rightarrow> (r, \<lparr> signerState = s', calls = calls w @ [ConfirmTransaction signature net] \<rparr>))"

subsection \<open>\<^verbatim>\<open>getExtra\<close> and \<^verbatim>\<open>getSigners\<close>\<close>

text \<open>\<^verbatim>\<open>xs[i]\<close> on an array: \<^verbatim>\<open>undefined\<close> out of range.\<close>

definition arrayAt :: "'a list \<Rightarrow> int \<Rightarrow> 'a option" where
  "arrayAt xs i = (if 0 \<le> i \<and> i < int (length xs) then Some (xs ! nat i) else None)"

text \<open>
  A JavaScript number is a double. A finite double that is not negative is the number
  \<open>mantissa * 2 ^ exponent\<close> for a mantissa below \<open>2 ^ 53\<close> and an exponent from \<open>-1074\<close> to
  \<open>971\<close>; \<open>doubleValue\<close> is that number.
\<close>

record Double =
  mantissa :: nat
  exponent :: int

definition isDouble :: "Double \<Rightarrow> bool" where
  "isDouble d = (mantissa d < 2 ^ 53 \<and> - 1074 \<le> exponent d \<and> exponent d \<le> 971)"

definition doubleValue :: "Double \<Rightarrow> real" where
  "doubleValue d = real (mantissa d) * 2 powr real_of_int (exponent d)"

text \<open>The double is less than 1, as every result of \<^verbatim>\<open>Math.random()\<close> is.\<close>

definition belowOne :: "Double \<Rightarrow> bool" where
  "belowOne d = (mantissa d = 0 \<or> (exponent d < 0 \<and> mantissa d < 2 ^ nat (- exponent d)))"

text \<open>
  \<open>m / 2 ^ s\<close> rounded to the nearest integer, a tie to the even one: the rounding of
  double arithmetic.
\<close>

definition roundHalfEven :: "nat \<Rightarrow> nat \<Rightarrow> nat" where
  "roundHalfEven m s =
     (let q = m div 2 ^ s; r = m mod 2 ^ s
      in if 2 * r > 2 ^ s \<or> (2 * r = 2 ^ s \<and> odd q) then q + 1 else q)"

text \<open>
  The double nearest to the number \<open>m * 2 ^ e\<close> (for \<open>e\<close> from \<open>-1074\<close> on and a result below
  \<open>2 ^ 1024\<close>): exact when \<open>m\<close> has at most 53 bits, and otherwise \<open>m\<close> rounded to its 53
  leading bits. The pair is not normalised: a rounded mantissa may be \<open>2 ^ 53\<close>.
\<close>

definition roundToDouble :: "nat \<Rightarrow> int \<Rightarrow> Double" where
  "roundToDouble m e =
     (if m < 2 ^ 53 then \<lparr> mantissa = m, exponent = e \<rparr>
      else let s = floorlog 2 m - 53
           in \<lparr> mantissa = roundHalfEven m s, exponent = e + int s \<rparr>)"

text \<open>
  \<^verbatim>\<open>d * n\<close> for a double \<open>d\<close> and an array length \<open>n\<close> (an integer below \<open>2 ^ 32\<close>, itself a
  double): the exact product \<open>(mantissa d * n) * 2 ^ exponent d\<close>, rounded.
\<close>

definition timesLength :: "Double \<Rightarrow> nat \<Rightarrow> Double" where
  "timesLength d n = roundToDouble (mantissa d * n) (exponent d)"

text \<open>\<^verbatim>\<open>Math.floor\<close>, as an integer.\<close>

definition floorDouble :: "Double \<Rightarrow> int" where
  "floorDouble d =
     (if 0 \<le> exponent d then int (mantissa d) * 2 ^ nat (exponent d)
      else int (mantissa d) div 2 ^ nat (- exponent d))"

text \<open>
  \<open>random\<close> is the double \<^verbatim>\<open>Math.random()\<close> returns in this call.
  The method always returns an object, here \<open>Some\<close> of it.
\<close>

definition getExtra :: "'s FacilitatorSvmSigner \<Rightarrow> 's \<Rightarrow> Double \<Rightarrow> string \<Rightarrow> Extra option" where
  "getExtra signer s random net =
     (let addresses = getAddresses signer s;
          randomIndex = floorDouble (timesLength random (length addresses))
      in Some \<lparr> feePayer = map_option JsString (arrayAt addresses randomIndex) \<rparr>)"

definition getSigners :: "'s FacilitatorSvmSigner \<Rightarrow> 's \<Rightarrow> string \<Rightarrow> string list" where
  "getSigners signer s net = getAddresses signer s"

subsection \<open>\<^verbatim>\<open>verify\<close>\<close>

text \<open>An invalid verdict, returned with the world unchanged.\<close>

definition rejectWith ::
  "string \<Rightarrow> string \<Rightarrow> 's World \<Rightarrow> (exn + VerifyResponse) \<times> 's World" where
  "rejectWith r p w = (Inr \<lparr> isValid = False, invalidReason = Some r, payer = p \<rparr>, w)"

text \<open>
  Step 5 of \<^verbatim>\<open>verify\<close>: sign and simulate, both inside one \<^verbatim>\<open>try\<close>.
\<close>

definition signAndSimulate ::
  "'s FacilitatorSvmSigner \<Rightarrow> PaymentPayload \<Rightarrow> PaymentRequirements \<Rightarrow> string \<Rightarrow> string \<Rightarrow> 's World
     \<Rightarrow> (exn + VerifyResponse) \<times> 's World" where
  "signAndSimulate signer pl requirements feePayerAddr payerAddr w =
     (case callSignTransaction signer (ExactSvmPayloadV2.transaction (payload pl)) feePayerAddr
             (PaymentRequirements.network requirements) w of
        (Inl error, w1) \<Rightarrow>
          rejectWith (''transaction_simulation_failed: '' @ errorString error) payerAddr w1
      | (Inr fullySignedTransaction, w1) \<Rightarrow>
          (case callSimulateTransaction signer fullySignedTransaction
                  (PaymentRequirements.network requirements) w1 of
             (Inl error, w2) \<Rightarrow>
               rejectWith (''transaction_simulation_failed: '' @ errorString error) payerAddr w2
           | (Inr _, w2) \<Rightarrow>
               (Inr \<lparr> isValid = True, invalidReason = None, payer = payerAddr \<rparr>, w2)))"

text \<open>
  Step 4 of \<^verbatim>\<open>verify\<close>: the transfer instruction. Reading \<^verbatim>\<open>programAddress\<close> of an
  index out of range throws a \<^verbatim>\<open>TypeError\<close>; \<^verbatim>\<open>BigInt(requirements.amount)\<close> stands
  outside every \<^verbatim>\<open>try\<close>.
\<close>

definition verifyTransfer ::
  "('tx, 'cm) Env \<Rightarrow> 's FacilitatorSvmSigner \<Rightarrow> string list \<Rightarrow> PaymentPayload \<Rightarrow> PaymentRequirements
     \<Rightarrow> string \<Rightarrow> Instruction list \<Rightarrow> nat \<Rightarrow> string \<Rightarrow> 's World \<Rightarrow> (exn + VerifyResponse) \<times> 's World" where
  "verifyTransfer env signer signerAddrs pl requirements feePayerAddr instructions transferIndex
       payerAddr w =
     (case drop transferIndex instructions of
        [] \<Rightarrow> (Inl (Error ''TypeError: Cannot read properties of undefined''), w)
      | transferIx # _ \<Rightarrow>
        let programAddr = programAddress transferIx in
        if programAddr \<noteq> TOKEN_PROGRAM_ADDRESS \<and> programAddr \<noteq> TOKEN_2022_PROGRAM_ADDRESS
        then rejectWith ''invalid_exact_svm_payload_no_transfer_instruction'' payerAddr w
        else
          case (if programAddr = TOKEN_PROGRAM_ADDRESS
                then parseTransferCheckedInstructionToken env transferIx
                else parseTransferCheckedInstruction2022 env transferIx) of
            Inl _ \<Rightarrow> rejectWith ''invalid_exact_svm_payload_no_transfer_instruction'' payerAddr w
          | Inr parsedTransfer \<Rightarrow>
            if authority parsedTransfer \<in> set signerAddrs
            then rejectWith ''invalid_exact_svm_payload_transaction_fee_payer_transferring_funds''
                   payerAddr w
            else if mint parsedTransfer \<noteq> asset requirements
            then rejectWith ''invalid_exact_svm_payload_mint_mismatch'' payerAddr w
            else
              case findAssociatedTokenPda env (asset requirements) (payTo requirements)
                     (if programAddr = TOKEN_PROGRAM_ADDRESS then TOKEN_PROGRAM_ADDRESS
                      else TOKEN_2022_PROGRAM_ADDRESS) of
                Inl _ \<Rightarrow> rejectWith ''invalid_exact_svm_payload_recipient_mismatch'' payerAddr w
              | Inr expectedDestATA \<Rightarrow>
                if destination parsedTransfer \<noteq> expectedDestATA
                then rejectWith ''invalid_exact_svm_payload_recipient_mismatch'' payerAddr w
                else
                  case BigInt env (amount requirements) of
                    Inl error \<Rightarrow> (Inl error, w)
                  | Inr requiredAmount \<Rightarrow>
                    if transferAmount parsedTransfer < requiredAmount
                    then rejectWith ''invalid_exact_svm_payload_amount_insufficient'' payerAddr w
                    else signAndSimulate signer pl requirements feePayerAddr payerAddr w)"

text \<open>
  Steps 2 and 3 of \<^verbatim>\<open>verify\<close>: decode, decompile, resolve the payer, validate the
  instruction structure. Only \<^verbatim>\<open>decodeTransactionFromPayload\<close> stands in a \<^verbatim>\<open>try\<close>;
  \<^verbatim>\<open>decompiled.instructions ?? []\<close> replaces a missing list by the empty one; \<^verbatim>\<open>!payer\<close>
  holds of the empty string.
\<close>

definition verifyStructure ::
  "('tx, 'cm) Env \<Rightarrow> 's FacilitatorSvmSigner \<Rightarrow> SvmVerificationConfig \<Rightarrow> string list \<Rightarrow> PaymentPayload
     \<Rightarrow> PaymentRequirements \<Rightarrow> string \<Rightarrow> 's World \<Rightarrow> (exn + VerifyResponse) \<times> 's World" where
  "verifyStructure env signer verificationConfig signerAddrs pl requirements feePayerAddr w =
     (case decodeTransactionFromPayload env (ExactSvmPayloadV2.transaction (payload pl)) of
        Inl _ \<Rightarrow>
          rejectWith ''invalid_exact_svm_payload_transaction_could_not_be_decoded'' [] w
      | Inr tx \<Rightarrow>
        case decodeCompiledMessage env tx of
          Inl error \<Rightarrow> (Inl error, w)
        | Inr compiled \<Rightarrow>
        case decompileTransactionMessage env compiled of
          Inl error \<Rightarrow> (Inl error, w)
        | Inr decompiledInstructions \<Rightarrow>
        let instructions = (case decompiledInstructions of None \<Rightarrow> [] | Some ixs \<Rightarrow> ixs) in
        case getTokenPayerFromTransaction env tx of
          Inl error \<Rightarrow> (Inl error, w)
        | Inr payerAddr \<Rightarrow>
        if payerAddr = []
        then rejectWith ''invalid_exact_svm_payload_no_transfer_instruction'' [] w
        else
          let validationResult =
                validateInstructions env verificationConfig instructions signerAddrs feePayerAddr in
          if \<not> InstructionValidationResult.isValid validationResult
          then rejectWith
                 (case reason validationResult of None \<Rightarrow> ''invalid_instructions'' | Some r \<Rightarrow> r)
                 payerAddr w
          else verifyTransfer env signer signerAddrs pl requirements feePayerAddr instructions
                 (transferInstructionIndex validationResult) payerAddr w)"

text \<open>
  \<^verbatim>\<open>verify\<close>, from step 1 (the requirements). \<open>verificationConfig\<close> is the configuration
  the scheme was constructed with.
\<close>

definition verify ::
  "('tx, 'cm) Env \<Rightarrow> 's FacilitatorSvmSigner \<Rightarrow> SvmVerificationConfig \<Rightarrow> PaymentPayload
     \<Rightarrow> PaymentRequirements \<Rightarrow> 's World \<Rightarrow> (exn + VerifyResponse) \<times> 's World" where
  "verify env signer verificationConfig pl requirements w =
     (if scheme (accepted pl) \<noteq> ''exact'' \<or> scheme requirements \<noteq> ''exact''
      then rejectWith ''unsupported_scheme'' [] w
      else if PaymentRequirements.network (accepted pl) \<noteq> PaymentRequirements.network requirements
      then rejectWith ''network_mismatch'' [] w
      else
        case requiredFeePayer requirements of
          None \<Rightarrow> rejectWith ''invalid_exact_svm_payload_missing_fee_payer'' [] w
        | Some feePayerAddr \<Rightarrow>
          let signerAddrs = getAddresses signer (signerState w) in
          if feePayerAddr \<notin> set signerAddrs
          then rejectWith ''fee_payer_not_managed_by_facilitator'' [] w
          else verifyStructure env signer verificationConfig signerAddrs pl requirements
                 feePayerAddr w)"

subsection \<open>\<^verbatim>\<open>settle\<close>\<close>

text \<open>The result of the \<^verbatim>\<open>catch\<close> block of \<^verbatim>\<open>settle\<close>.\<close>

definition transactionFailed :: "PaymentPayload \<Rightarrow> VerifyResponse \<Rightarrow> SettleResponse" where
  "transactionFailed pl valid =
     \<lparr> success = False, transaction = [],
       network = PaymentRequirements.network (accepted pl),
       payer = (if VerifyResponse.payer valid = [] then [] else VerifyResponse.payer valid),
       errorReason = Some ''transaction_failed'' \<rparr>"

text \<open>
  The \<^verbatim>\<open>try\<close> block of \<^verbatim>\<open>settle\<close>: sign, send, confirm. Reading
  \<^verbatim>\<open>requirements.extra.feePayer\<close> is inside the block; \<^verbatim>\<open>verify\<close> has accepted, so the
  fee payer is the string \<open>requiredFeePayer\<close> gives, and the branch \<open>None\<close> is never taken.
\<close>

definition submit ::
  "'s FacilitatorSvmSigner \<Rightarrow> PaymentPayload \<Rightarrow> PaymentRequirements \<Rightarrow> VerifyResponse \<Rightarrow> 's World
     \<Rightarrow> SettleResponse \<times> 's World" where
  "submit signer pl requirements valid w =
     (case requiredFeePayer requirements of
        None \<Rightarrow> (transactionFailed pl valid, w)
      | Some feePayerAddr \<Rightarrow>
        case callSignTransaction signer (ExactSvmPayloadV2.transaction (payload pl)) feePayerAddr
               (PaymentRequirements.network requirements) w of
          (Inl _, w1) \<Rightarrow> (transactionFailed pl valid, w1)
        | (Inr fullySignedTransaction, w1) \<Rightarrow>
        case callSendTransaction signer fullySignedTransaction
               (PaymentRequirements.network requirements) w1 of
          (Inl _, w2) \<Rightarrow> (transactionFailed pl valid, w2)
        | (Inr signature, w2) \<Rightarrow>
        case callConfirmTransaction signer signature (PaymentRequirements.network requirements) w2 of
          (Inl _, w3) \<Rightarrow> (transactionFailed pl valid, w3)
        | (Inr _, w3) \<Rightarrow>
            (\<lparr> success = True, transaction = signature,
               network = PaymentRequirements.network (accepted pl),
               payer = VerifyResponse.payer valid, errorReason = None \<rparr>, w3))"

text \<open>
  \<^verbatim>\<open>valid.invalidReason ?? "verification_failed"\<close> and \<^verbatim>\<open>valid.payer || ""\<close>; an
  exception of \<^verbatim>\<open>verify\<close> leaves \<^verbatim>\<open>settle\<close> as it is.
\<close>

definition settle ::
  "('tx, 'cm) Env \<Rightarrow> 's FacilitatorSvmSigner \<Rightarrow> SvmVerificationConfig \<Rightarrow> PaymentPayload
     \<Rightarrow> PaymentRequirements \<Rightarrow> 's World \<Rightarrow> (exn + SettleResponse) \<times> 's World" where
  "settle env signer verificationConfig pl requirements w =
     (case verify env signer verificationConfig pl requirements w of
        (Inl error, w1) \<Rightarrow> (Inl error, w1)
      | (Inr valid, w1) \<Rightarrow>
          if \<not> VerifyResponse.isValid valid
          then (Inr \<lparr> success = False, transaction = [],
                      network = PaymentRequirements.network (accepted pl),
                      payer = (if VerifyResponse.payer valid = [] then [] else VerifyResponse.payer valid),
                      errorReason =
                        Some (case invalidReason valid of None \<Rightarrow> ''verification_failed'' | Some r \<Rightarrow> r) \<rparr>,
                w1)
          else (case submit signer pl requirements valid w1 of (response, w2) \<Rightarrow> (Inr response, w2)))"

section \<open>An instance of the imported functions\<close>

text \<open>
  A concrete \<open>Env\<close> and signer, on which the definitions above compute. A decoded
  transaction is its instruction list with a flag saying whether its message refers to an
  address lookup table; the decompiler, called as \<^verbatim>\<open>verify\<close> calls it (with no lookup
  table contents), throws on such a message.
\<close>

record ExampleTransaction =
  txInstructions :: "Instruction list"
  usesAddressLookupTable :: bool

text \<open>The value of bytes in little-endian order.\<close>

fun littleEndian :: "8 word list \<Rightarrow> int" where
  "littleEndian [] = 0"
| "littleEndian (b # bs) = uint b + 256 * littleEndian bs"

text \<open>\<^verbatim>\<open>SetComputeUnitLimit\<close>: a discriminator byte and a 32-bit number.\<close>

definition exampleParseLimit :: "Instruction \<Rightarrow> exn + unit" where
  "exampleParseLimit ix =
     (case data ix of
        Some bytes \<Rightarrow> if length bytes \<ge> 5 then Inr () else Inl (Error ''Codec [u32] cannot decode'')
      | None \<Rightarrow> Inl (Error ''Codec [u32] cannot decode''))"

text \<open>
  \<^verbatim>\<open>SetComputeUnitPrice\<close>: a discriminator byte and a 64-bit number of microlamports. As
  the library's parser does, this one returns the price under \<^verbatim>\<open>data\<close>, and the returned
  object has no property \<^verbatim>\<open>microLamports\<close> of its own.
\<close>

definition exampleParsePrice :: "Instruction \<Rightarrow> exn + ParsedSetComputeUnitPrice" where
  "exampleParsePrice ix =
     (case data ix of
        Some bytes \<Rightarrow>
          if length bytes \<ge> 9
          then Inr \<lparr> priceData = \<lparr> discriminator = hd bytes,
                                   microLamports = littleEndian (take 8 (drop 1 bytes)) \<rparr>,
                     topLevelMicroLamports = None \<rparr>
          else Inl (Error ''Codec [u64] cannot decode'')
      | None \<Rightarrow> Inl (Error ''Codec [u64] cannot decode''))"

text \<open>
  \<^verbatim>\<open>TransferChecked\<close>: accounts source, mint, destination, authority; data a discriminator
  byte, a 64-bit amount and a byte of decimals.
\<close>

definition exampleParseTransfer :: "Instruction \<Rightarrow> exn + ParsedTransferChecked" where
  "exampleParseTransfer ix =
     (case (accounts ix, data ix) of
        (Some (source # mintAcc # destAcc # authAcc # _), Some bytes) \<Rightarrow>
          if length bytes \<ge> 10
          then Inr \<lparr> authority = address authAcc, mint = address mintAcc,
                     destination = address destAcc,
                     transferAmount = littleEndian (take 8 (drop 1 bytes)) \<rparr>
          else Inl (Error ''Codec [u64] cannot decode'')
      | _ \<Rightarrow> Inl (Error ''Not enough accounts''))"

text \<open>
  Modelled from the spec: \<^verbatim>\<open>getTokenPayerFromTransaction\<close> of the repository's utilities is
  not among the sources; the payer is "resolvable from the transfer instruction's source
  account". Here: the first account of the first instruction of a token program, the empty
  string when there is none.
\<close>

fun exampleTokenPayer :: "Instruction list \<Rightarrow> string" where
  "exampleTokenPayer [] = []"
| "exampleTokenPayer (ix # rest) =
     (if programAddress ix = TOKEN_PROGRAM_ADDRESS \<or> programAddress ix = TOKEN_2022_PROGRAM_ADDRESS
      then (case accounts ix of Some (source # _) \<Rightarrow> address source | _ \<Rightarrow> exampleTokenPayer rest)
      else exampleTokenPayer rest)"

text \<open>\<^verbatim>\<open>BigInt\<close> on strings of decimal digits (the empty string gives 0); this instance throws
  on every other string.\<close>

definition exampleBigInt :: "string \<Rightarrow> exn + int" where
  "exampleBigInt s =
     (if list_all (\<lambda>c. c \<in> set ''0123456789'') s
      then Inr (foldl (\<lambda>acc c. 10 * acc + int (of_char c) - 48) 0 s)
      else Inl (Error ''SyntaxError: Cannot convert to a BigInt''))"

text \<open>
  The environment decodes a payload by looking its string up in a table of transactions;
  the ceiling is the source's "5 lamports per compute unit".
\<close>

definition exampleEnv ::
  "(string \<times> ExampleTransaction) list \<Rightarrow> (ExampleTransaction, ExampleTransaction) Env" where
  "exampleEnv table =
     \<lparr> decodeTransactionFromPayload =
         (\<lambda>s. case map_of table s of
                None \<Rightarrow> Inl (Error ''invalid_exact_svm_payload_transaction'')
              | Some tx \<Rightarrow> Inr tx),
       decodeCompiledMessage = Inr,
       decompileTransactionMessage =
         (\<lambda>cm. if usesAddressLookupTable cm
               then Inl (Error ''Failed to decompile: address lookup table contents missing'')
               else Inr (Some (txInstructions cm))),
       getTokenPayerFromTransaction = (\<lambda>tx. Inr (exampleTokenPayer (txInstructions tx))),
       parseSetComputeUnitLimitInstruction = exampleParseLimit,
       parseSetComputeUnitPriceInstruction = exampleParsePrice,
       parseTransferCheckedInstructionToken = exampleParseTransfer,
       parseTransferCheckedInstruction2022 = exampleParseTransfer,
       findAssociatedTokenPda =
         (\<lambda>mintAddr owner tokenProgram. Inr (''ata('' @ owner @ '','' @ mintAddr @ '')'')),
       BigInt = exampleBigInt,
       MAX_COMPUTE_UNIT_PRICE_MICROLAMPORTS = 5000000 \<rparr>"

text \<open>
  A signer with one address and no state; \<open>simulationOk\<close> says whether its simulation
  succeeds.
\<close>

definition exampleSigner :: "bool \<Rightarrow> unit FacilitatorSvmSigner" where
  "exampleSigner simulationOk =
     \<lparr> getAddresses = (\<lambda>_. [''FacilitatorFeePayer'']),
       signTransaction = (\<lambda>tx feePayerAddr net s. (Inr (''signed:'' @ tx), s)),
       simulateTransaction =
         (\<lambda>tx net s. (if simulationOk then Inr () else Inl (Error ''custom program error: 0x1''), s)),
       sendTransaction = (\<lambda>tx net s. (Inr (''signature:'' @ tx), s)),
       confirmTransaction = (\<lambda>signature net s. (Inr (), s)) \<rparr>"

definition initialWorld :: "unit World" where
  "initialWorld = \<lparr> signerState = (), calls = [] \<rparr>"

text \<open>The instructions of a well-formed payment of 1000000 units.\<close>

definition limitIx :: Instruction where
  "limitIx = \<lparr> programAddress = COMPUTE_BUDGET_PROGRAM_ADDRESS, accounts = Some [],
               data = Some [2, 0x40, 0x0D, 0x03, 0] \<rparr>"

definition priceIx :: Instruction where
  "priceIx = \<lparr> programAddress = COMPUTE_BUDGET_PROGRAM_ADDRESS, accounts = Some [],
               data = Some [3, 1, 0, 0, 0, 0, 0, 0, 0] \<rparr>"

definition transferIx :: Instruction where
  "transferIx =
     \<lparr> programAddress = TOKEN_PROGRAM_ADDRESS,
       accounts = Some [\<lparr> address = ''ClientTokenAccount'', role = 1 \<rparr>,
                        \<lparr> address = ''USDCMint'', role = 0 \<rparr>,
                        \<lparr> address = ''ata(Merchant,USDCMint)'', role = 1 \<rparr>,
                        \<lparr> address = ''ClientWallet'', role = 2 \<rparr>],
       data = Some [12, 0x40, 0x42, 0x0F, 0, 0, 0, 0, 0, 6] \<rparr>"

text \<open>An instruction of another program (a memo), with chosen accounts.\<close>

definition memoIx :: "AccountMeta list \<Rightarrow> Instruction" where
  "memoIx accs = \<lparr> programAddress = ''MemoProgram'', accounts = Some accs, data = Some [104, 105] \<rparr>"

text \<open>A compute-unit-price instruction of 10000000 microlamports.\<close>

definition expensivePriceIx :: Instruction where
  "expensivePriceIx = \<lparr> programAddress = COMPUTE_BUDGET_PROGRAM_ADDRESS, accounts = Some [],
               data = Some [3, 0x80, 0x96, 0x98, 0, 0, 0, 0, 0] \<rparr>"

definition exampleTransaction :: "Instruction list \<Rightarrow> ExampleTransaction" where
  "exampleTransaction ixs = \<lparr> txInstructions = ixs, usesAddressLookupTable = False \<rparr>"

definition exampleTable :: "(string \<times> ExampleTransaction) list" where
  "exampleTable =
     [(''payment'', exampleTransaction [limitIx, priceIx, transferIx]),
      (''empty'', exampleTransaction []),
      (''transfer-only'', exampleTransaction [transferIx]),
      (''payment-with-memo'',
         exampleTransaction
           [limitIx, priceIx, transferIx, memoIx [\<lparr> address = ''FacilitatorFeePayer'', role = 3 \<rparr>]]),
      (''lookup-table'',
         (exampleTransaction [limitIx, priceIx, transferIx]) \<lparr> usesAddressLookupTable := True \<rparr>),
      (''expensive-payment'', exampleTransaction [limitIx, expensivePriceIx, transferIx])]"

definition exampleRequirements :: PaymentRequirements where
  "exampleRequirements =
     \<lparr> scheme = ''exact'', PaymentRequirements.network = ''solana:devnet'', asset = ''USDCMint'', amount = ''1000000'',
       payTo = ''Merchant'', extra = Some \<lparr> feePayer = Some (JsString ''FacilitatorFeePayer'') \<rparr> \<rparr>"

definition examplePayload :: "string \<Rightarrow> PaymentPayload" where
  "examplePayload tx = \<lparr> accepted = exampleRequirements, payload = \<lparr> ExactSvmPayloadV2.transaction = tx \<rparr> \<rparr>"

text \<open>The scheme's configuration when none is given: \<^verbatim>\<open>{}\<close>.\<close>

definition emptyConfig :: SvmVerificationConfig where
  "emptyConfig =
     \<lparr> SvmVerificationConfig.maxInstructionCount = None,
       SvmVerificationConfig.allowAdditionalInstructions = None,
       SvmVerificationConfig.allowedProgramIds = None,
       SvmVerificationConfig.blockedProgramIds = None,
       SvmVerificationConfig.customVerifiers = None,
       SvmVerificationConfig.requireFeePayerNotInInstructions = None \<rparr>"

text \<open>A configuration that admits a fourth instruction.\<close>

definition fourInstructionsConfig :: SvmVerificationConfig where
  "fourInstructionsConfig =
     emptyConfig \<lparr> SvmVerificationConfig.maxInstructionCount := Some 4,
                   SvmVerificationConfig.allowAdditionalInstructions := Some True \<rparr>"

text \<open>A custom verifier for the memo program, without and with a callback that throws an
  \<^verbatim>\<open>Error\<close> whose message is empty (\<^verbatim>\<open>throw new Error()\<close>).\<close>

definition memoVerifier :: InstructionVerifierConfig where
  "memoVerifier = \<lparr> programIds = [''MemoProgram''], allowedPositions = Some [3], verifyCallback = None \<rparr>"

definition silentVerifier :: InstructionVerifierConfig where
  "silentVerifier =
     \<lparr> programIds = [''MemoProgram''], allowedPositions = None,
       verifyCallback = Some (\<lambda>ix ctx. Inl (Error [])) \<rparr>"

definition silentConfig :: SvmVerificationConfig where
  "silentConfig = fourInstructionsConfig \<lparr> SvmVerificationConfig.customVerifiers := Some [silentVerifier] \<rparr>"

text \<open>Merged configurations with the memo verifier, the second one also blocking the memo
  program.\<close>

definition memoConfig :: RequiredSvmVerificationConfig where
  "memoConfig =
     (mergeConfig DEFAULT_VERIFICATION_CONFIG fourInstructionsConfig) \<lparr> customVerifiers := [memoVerifier] \<rparr>"

definition blockingConfig :: RequiredSvmVerificationConfig where
  "blockingConfig = memoConfig \<lparr> blockedProgramIds := [''MemoProgram''] \<rparr>"

text \<open>
  A signer with eleven addresses, and the double \<open>0.2727272727272727\<close>
  (\<open>1228254443828317 / 2 ^ 52\<close>).
\<close>

definition elevenAddresses :: "string list" where
  "elevenAddresses =
     [''Payer0'', ''Payer1'', ''Payer2'', ''Payer3'', ''Payer4'', ''Payer5'', ''Payer6'', ''Payer7'',
      ''Payer8'', ''Payer9'', ''Payer10'']"

definition elevenSigner :: "unit FacilitatorSvmSigner" where
  "elevenSigner = (exampleSigner True) \<lparr> getAddresses := (\<lambda>_. elevenAddresses) \<rparr>"

definition exampleRandom :: Double where
  "exampleRandom = \<lparr> mantissa = 1228254443828317, exponent = - 52 \<rparr>"

text \<open>
  The signer calls \<^verbatim>\<open>verify\<close> makes: none, one \<^verbatim>\<open>signTransaction\<close>, or one
  \<^verbatim>\<open>signTransaction\<close> followed by one \<^verbatim>\<open>simulateTransaction\<close>.
\<close>

definition simulationCalls :: "SignerCall list \<Rightarrow> bool" where
  "simulationCalls cs =
     (case cs of
        [] \<Rightarrow> True
      | [SignTransaction _ _ _] \<Rightarrow> True
      | [SignTransaction _ _ _, SimulateTransaction _ _] \<Rightarrow> True
      | _ \<Rightarrow> False)"

section \<open>Properties\<close>

subsection \<open>Facts about the helpers\<close>

lemma too_high_nonempty: "includes_str m ''too_high'' \<Longrightarrow> m \<noteq> []"
  by (auto simp add: includes_str_def)

lemma too_high_includes:
  "includes_str
     ''invalid_exact_svm_payload_transaction_instructions_compute_price_instruction_too_high''
     ''too_high''"
  unfolding includes_str_def by code_simp

lemma verifyComputeLimitInstruction_message:
  "verifyComputeLimitInstruction env ix = Inl e \<Longrightarrow> errorString e \<noteq> []"
  by (auto simp add: verifyComputeLimitInstruction_def errorString_def split: if_splits sum.splits)

lemma verifyComputePriceInstruction_message:
  "verifyComputePriceInstruction env ix = Inl e \<Longrightarrow> errorString e \<noteq> []"
  by (auto simp add: verifyComputePriceInstruction_def errorString_def
      split: if_splits sum.splits exn.splits dest: too_high_nonempty)

subsection \<open>Facts about doubles\<close>

text \<open>\<open>belowOne\<close> and \<open>floorDouble\<close> say of the pair what their names say of the number.\<close>

lemma powr_neg_nat: "2 powr real_of_int (- int t) = 1 / 2 ^ t"
proof -
  have "2 powr real_of_int (- int t) = 2 powr (- real t)" by simp
  also have "\<dots> = 1 / 2 powr real t" by (simp add: powr_minus divide_inverse)
  also have "\<dots> = 1 / 2 ^ t" by (simp add: powr_realpow)
  finally show ?thesis .
qed

lemma belowOne_iff: "belowOne d \<longleftrightarrow> doubleValue d < 1"
proof (cases "mantissa d = 0")
  case True
  then show ?thesis by (simp add: belowOne_def doubleValue_def)
next
  case False
  show ?thesis
  proof (cases "exponent d < 0")
    case True
    define t where "t = nat (- exponent d)"
    with True have e: "exponent d = - int t" by simp
    have "doubleValue d = real (mantissa d) / 2 ^ t"
      unfolding doubleValue_def e powr_neg_nat by simp
    moreover have "real (mantissa d) / 2 ^ t < 1 \<longleftrightarrow> mantissa d < 2 ^ t"
      by (simp add: of_nat_less_numeral_power_cancel_iff)
    ultimately show ?thesis using True False by (simp add: belowOne_def t_def)
  next
    case ge: False
    then have "1 \<le> 2 powr real_of_int (exponent d)" by (simp add: ge_one_powr_ge_zero)
    moreover from False have "1 \<le> real (mantissa d)" by simp
    ultimately have "1 * 1 \<le> real (mantissa d) * 2 powr real_of_int (exponent d)"
      by (intro mult_mono) simp_all
    then show ?thesis using ge False by (simp add: belowOne_def doubleValue_def)
  qed
qed

lemma floorDouble_floor: "floorDouble d = \<lfloor>doubleValue d\<rfloor>"
proof (cases "0 \<le> exponent d")
  case True
  define k where "k = nat (exponent d)"
  with True have e: "exponent d = int k" by simp
  have "doubleValue d = of_int (int (mantissa d) * 2 ^ k)"
    unfolding doubleValue_def e by (simp add: powr_realpow)
  then have "\<lfloor>doubleValue d\<rfloor> = int (mantissa d) * 2 ^ k"
    by (simp only: floor_of_int)
  moreover from True have "floorDouble d = int (mantissa d) * 2 ^ k"
    by (simp add: floorDouble_def k_def)
  ultimately show ?thesis by simp
next
  case False
  define t where "t = nat (- exponent d)"
  with False have e: "exponent d = - int t" by simp
  have "doubleValue d = real_of_int (int (mantissa d)) / real_of_int (2 ^ t)"
    unfolding doubleValue_def e powr_neg_nat by simp
  then have "\<lfloor>doubleValue d\<rfloor> = int (mantissa d) div 2 ^ t"
    by (simp only: floor_divide_of_int_eq)
  then show ?thesis using False by (simp add: floorDouble_def t_def)
qed

text \<open>The rounded mantissa is a nearest one: it is off by at most half a unit.\<close>

lemma roundHalfEven_nearest:
  "2 * \<bar>int (roundHalfEven m s) * 2 ^ s - int m\<bar> \<le> 2 ^ s"
proof -
  define q where "q = m div 2 ^ s"
  define r where "r = m mod 2 ^ s"
  define b where "b = (2::nat) ^ s"
  have "m = q * b + r" unfolding q_def r_def b_def by (simp only: div_mult_mod_eq)
  then have m: "int m = int q * int b + int r" by simp
  have rb: "r < b" unfolding r_def b_def by simp
  have rhe: "roundHalfEven m s = (if 2 * r > b \<or> (2 * r = b \<and> odd q) then q + 1 else q)"
    by (simp add: roundHalfEven_def Let_def q_def r_def b_def)
  have b: "(2::int) ^ s = int b" by (simp add: b_def)
  show ?thesis
  proof (cases "2 * r > b \<or> (2 * r = b \<and> odd q)")
    case True
    then have "b \<le> 2 * r" by auto
    then have "int b \<le> 2 * int r" by linarith
    moreover from rb have "int r < int b" by simp
    moreover from True have "roundHalfEven m s = q + 1" unfolding rhe by (rule if_P)
    then have "int (roundHalfEven m s) * int b - int m = int b - int r"
      unfolding m by (simp add: algebra_simps)
    ultimately show ?thesis unfolding b by simp
  next
    case False
    then have "2 * r \<le> b" by auto
    then have "2 * int r \<le> int b" by linarith
    moreover from False have "roundHalfEven m s = q" unfolding rhe by (rule if_not_P)
    then have "int (roundHalfEven m s) * int b - int m = - int r"
      unfolding m by simp
    ultimately show ?thesis unfolding b by simp
  qed
qed

lemma floorlog_2_eqI: "2 ^ k \<le> x \<Longrightarrow> x < 2 ^ Suc k \<Longrightarrow> floorlog 2 x = Suc k"
  by (rule antisym) (auto intro: floorlog_leI floorlog_ge_SucI)

text \<open>
  Rounding does not reach \<open>k\<close> from a number that is at least \<open>n / 2 ^ s\<close> below it, when
  \<open>n / 2 ^ s\<close> is more than a half.
\<close>

lemma roundHalfEven_less:
  assumes "m + n \<le> k * 2 ^ s" and "2 ^ s < 2 * n"
  shows "roundHalfEven m s < k"
proof -
  define q where "q = m div 2 ^ s"
  define r where "r = m mod 2 ^ s"
  define b where "b = (2::nat) ^ s"
  have m: "m = q * b + r" unfolding q_def r_def b_def by (simp only: div_mult_mod_eq)
  have rhe: "roundHalfEven m s = (if 2 * r > b \<or> (2 * r = b \<and> odd q) then q + 1 else q)"
    by (simp add: roundHalfEven_def Let_def q_def r_def b_def)
  from assms have n: "0 < n" by (cases n) auto
  from assms(1) n have "m < k * b" unfolding b_def by linarith
  then have q: "q < k" unfolding q_def b_def by (rule less_mult_imp_div_less)
  show ?thesis
  proof (cases "q + 1 < k")
    case True
    then show ?thesis unfolding rhe by simp
  next
    case False
    with q have k: "k = q + 1" by simp
    from assms(1) have "q * b + r + n \<le> (q + 1) * b" unfolding k m b_def .
    then have "r + n \<le> b" by (simp add: algebra_simps)
    with assms(2) have "2 * r < b" unfolding b_def by linarith
    then show ?thesis unfolding rhe using q by simp
  qed
qed


lemma floorDouble_neg:
  "floorDouble \<lparr> mantissa = x, exponent = - int k \<rparr> = int x div 2 ^ k"
proof (cases "k = 0")
  case True
  then show ?thesis by (simp add: floorDouble_def)
next
  case False
  then have "\<not> 0 \<le> - int k" and "nat (- (- int k)) = k" by simp_all
  then show ?thesis by (simp only: floorDouble_def Double.simps if_False)
qed

text \<open>
  The product of a double below 1 and a length \<open>n\<close>, computed in double arithmetic and
  floored, is an index below \<open>n\<close>: the rounding never reaches \<open>n\<close>.
\<close>

lemma floor_timesLength_less:
  assumes "isDouble d" and "belowOne d" and "0 < n" and "n < 2 ^ 53"
  shows "0 \<le> floorDouble (timesLength d n) \<and> floorDouble (timesLength d n) < int n"
proof (cases "mantissa d = 0")
  case True
  with assms(3) show ?thesis
    by (simp add: timesLength_def roundToDouble_def floorDouble_def)
next
  case False
  define m where "m = mantissa d"
  define t where "t = nat (- exponent d)"
  from False assms(1,2) have e: "exponent d < 0" and mt: "m < 2 ^ t" and m53: "m < 2 ^ 53"
    and m0: "0 < m"
    by (auto simp add: belowOne_def isDouble_def m_def t_def)
  from e have ed: "exponent d = - int t" by (simp add: t_def)
  from mt have "m + 1 \<le> 2 ^ t" by simp
  then have "(m + 1) * n \<le> 2 ^ t * n" by (rule mult_le_mono1)
  then have step: "m * n + n \<le> n * 2 ^ t" by (simp add: algebra_simps)
  show ?thesis
  proof (cases "m * n < 2 ^ 53")
    case True
    from step assms(3) have "m * n < n * 2 ^ t" by linarith
    then have "m * n div 2 ^ t < n" by (rule less_mult_imp_div_less)
    then have "int (m * n div 2 ^ t) < int n" by simp
    then have "int (m * n) div 2 ^ t < int n" by (simp add: zdiv_int)
    moreover have "0 \<le> int (m * n) div 2 ^ t" by (simp add: pos_imp_zdiv_nonneg_iff)
    moreover have "timesLength d n = \<lparr> mantissa = m * n, exponent = - int t \<rparr>"
      using True by (simp add: timesLength_def roundToDouble_def m_def[symmetric] ed)
    ultimately show ?thesis
      by (simp only: floorDouble_neg simp_thms)
  next
    case False
    define s where "s = floorlog 2 (m * n) - 53"
    from False have big: "2 ^ 53 \<le> m * n" by simp
    then have "Suc 53 \<le> floorlog 2 (m * n)" by (intro floorlog_ge_SucI) auto
    then have L: "floorlog 2 (m * n) - 1 = 52 + s" and s1: "1 \<le> s" by (simp_all add: s_def)
    have pos: "0 < m * n" using m0 assms(3) by simp
    from floorlog_bounds[OF pos, of 2] have "2 ^ (floorlog 2 (m * n) - 1) \<le> m * n" by simp
    then have lo: "2 ^ (52 + s) \<le> m * n" unfolding L .
    have "m * n < 2 ^ t * n" using mt assms(3) by simp
    also have "\<dots> < 2 ^ t * 2 ^ 53" using assms(4) by simp
    also have "\<dots> = 2 ^ (t + 53)" by (simp only: power_add)
    finally have "m * n < 2 ^ (t + 53)" .
    with lo have "(2::nat) ^ (52 + s) < 2 ^ (t + 53)" by (rule le_less_trans)
    then have "52 + s < t + 53" by (rule power_less_imp_less_exp[rotated]) simp
    then have st: "s \<le> t" by simp
    have "m * n < 2 ^ 53 * n" using m53 assms(3) by simp
    with lo have "(2::nat) ^ (52 + s) < 2 ^ 53 * n" by (rule le_less_trans)
    moreover from s1 have "52 + s = 53 + (s - 1)" by simp
    then have "(2::nat) ^ (52 + s) = 2 ^ 53 * 2 ^ (s - 1)"
      by (simp only: power_add)
    ultimately have "(2::nat) ^ 53 * 2 ^ (s - 1) < 2 ^ 53 * n" by simp
    then have "(2::nat) ^ (s - 1) < n" by (simp only: mult_less_cancel1)
    then have "2 * (2::nat) ^ (s - 1) < 2 * n" by simp
    moreover from s1 have "2 * (2::nat) ^ (s - 1) = 2 ^ s" by (cases s) simp_all
    ultimately have half: "2 ^ s < 2 * n" by simp
    from st have "t = (t - s) + s" by simp
    then have "(2::nat) ^ t = 2 ^ (t - s) * 2 ^ s" by (metis power_add)
    then have "n * 2 ^ t = (n * 2 ^ (t - s)) * 2 ^ s" by simp
    with step have "m * n + n \<le> (n * 2 ^ (t - s)) * 2 ^ s" by simp
    from roundHalfEven_less[OF this half] have r: "roundHalfEven (m * n) s < n * 2 ^ (t - s)" .
    then have "roundHalfEven (m * n) s div 2 ^ (t - s) < n" by (rule less_mult_imp_div_less)
    then have "int (roundHalfEven (m * n) s div 2 ^ (t - s)) < int n" by simp
    then have d: "int (roundHalfEven (m * n) s) div 2 ^ (t - s) < int n" by (simp add: zdiv_int)
    have nn: "0 \<le> int (roundHalfEven (m * n) s) div 2 ^ (t - s)"
      by (simp add: pos_imp_zdiv_nonneg_iff)
    from st have ex: "- int t + int s = - int (t - s)" by simp
    have "timesLength d n = roundToDouble (m * n) (- int t)"
      unfolding timesLength_def m_def ed ..
    also from False have "\<dots> = \<lparr> mantissa = roundHalfEven (m * n) s, exponent = - int t + int s \<rparr>"
      unfolding roundToDouble_def s_def Let_def by (simp only: if_False)
    finally have res: "timesLength d n = \<lparr> mantissa = roundHalfEven (m * n) s, exponent = - int (t - s) \<rparr>"
      unfolding ex .
    from d nn show ?thesis unfolding res floorDouble_neg by simp
  qed
qed

subsection \<open>Facts about arrays\<close>

lemma arrayAt_in_range:
  assumes "0 \<le> i" and "i < int (length xs)"
  shows "\<exists>a \<in> set xs. arrayAt xs i = Some a"
proof -
  from assms have "nat i < length xs" by simp
  then have "xs ! nat i \<in> set xs" by (rule nth_mem)
  then show ?thesis using assms by (simp add: arrayAt_def)
qed

subsection \<open>Facts about \<^verbatim>\<open>validateInstructions\<close>\<close>

text \<open>An accepted list has its transfer instruction, of a token program, at index 2.\<close>

lemma validateInstructions_valid:
  assumes "InstructionValidationResult.isValid (validateInstructions env cfg ixs sa fp)"
  shows "3 \<le> length ixs \<and> transferInstructionIndex (validateInstructions env cfg ixs sa fp) = 2
         \<and> (programAddress (ixs ! 2) = TOKEN_PROGRAM_ADDRESS
              \<or> programAddress (ixs ! 2) = TOKEN_2022_PROGRAM_ADDRESS)"
  using assms
  by (auto simp add: validateInstructions_def Let_def invalidInstructions_def validInstructions_def
      split: if_splits sum.splits option.splits)

text \<open>
  When the count gates and the fee-payer scan pass and instruction 0 is a valid
  compute-unit-limit instruction, the message of the error that
  \<^verbatim>\<open>verifyComputePriceInstruction\<close> throws on instruction 1 is the reason of the result.
\<close>

lemma validateInstructions_price_reason:
  assumes "3 \<le> length ixs"
    and "int (length ixs) \<le> maxInstructionCount (mergeConfig DEFAULT_VERIFICATION_CONFIG cfg)"
    and "\<not> (requireFeePayerNotInInstructions (mergeConfig DEFAULT_VERIFICATION_CONFIG cfg)
            \<and> list_ex (\<lambda>ix. instructionIncludesAccount ix fp) ixs)"
    and "verifyComputeLimitInstruction env (ixs ! 0) = Inr u"
    and "verifyComputePriceInstruction env (ixs ! 1) = Inl (Error m)"
  shows "validateInstructions env cfg ixs sa fp = invalidInstructions m"
  using assms by (auto simp add: validateInstructions_def Let_def errorString_def)

text \<open>The loop accepts only when no instruction it visits has a blocked program.\<close>

lemma validateAdditionalInstructions_valid_not_blocked:
  assumes "validateAdditionalInstructions config sa fp i ixs = None" and "ix \<in> set ixs"
  shows "programAddress ix \<notin> set (blockedProgramIds config)"
  using assms
proof (induction ixs arbitrary: i)
  case Nil
  then show ?case by simp
next
  case (Cons x xs)
  show ?case
  proof (cases "validateAdditionalInstruction config sa fp i x")
    case None
    then have x: "programAddress x \<notin> set (blockedProgramIds config)"
      by (auto simp add: validateAdditionalInstruction_def Let_def split: if_splits)
    from None Cons.prems(1) have "validateAdditionalInstructions config sa fp (Suc i) xs = None"
      by simp
    with Cons.IH Cons.prems(2) x show ?thesis by auto
  next
    case (Some r)
    with Cons.prems(1) show ?thesis by simp
  qed
qed

lemma validateInstructions_valid_additional:
  assumes "InstructionValidationResult.isValid (validateInstructions env cfg ixs sa fp)"
  shows "validateAdditionalInstructions (mergeConfig DEFAULT_VERIFICATION_CONFIG cfg) sa fp 3
           (drop 3 ixs) = None"
proof (cases "length ixs > 3")
  case True
  with assms show ?thesis
    by (auto simp add: validateInstructions_def Let_def invalidInstructions_def
        split: if_splits sum.splits option.splits)
next
  case False
  then show ?thesis by simp
qed

text \<open>An empty reason can only be the message of an \<^verbatim>\<open>Error\<close> a custom verifier threw.\<close>

lemma validateAdditionalInstruction_reason:
  assumes "validateAdditionalInstruction config sa fp i ix = Some []"
  shows "\<exists>v \<in> set (customVerifiers config). \<exists>cb ix' ctx.
           verifyCallback v = Some cb \<and> cb ix' ctx = Inl (Error [])"
proof (cases "find (\<lambda>v. programAddress ix \<in> set (programIds v)) (customVerifiers config)")
  case None
  with assms show ?thesis
    by (simp add: validateAdditionalInstruction_def Let_def split: if_splits)
next
  case (Some v)
  then have mem: "v \<in> set (customVerifiers config)"
    by (auto simp add: find_Some_iff)
  from assms Some obtain cb ctx where "verifyCallback v = Some cb" and "cb ix ctx = Inl (Error [])"
    by (auto simp add: validateAdditionalInstruction_def Let_def
        split: if_splits option.splits sum.splits exn.splits)
  with mem show ?thesis by blast
qed

lemma validateAdditionalInstructions_reason:
  assumes "validateAdditionalInstructions config sa fp i ixs = Some []"
  shows "\<exists>v \<in> set (customVerifiers config). \<exists>cb ix' ctx.
           verifyCallback v = Some cb \<and> cb ix' ctx = Inl (Error [])"
  using assms
proof (induction ixs arbitrary: i)
  case Nil
  then show ?case by simp
next
  case (Cons x xs)
  show ?case
  proof (cases "validateAdditionalInstruction config sa fp i x")
    case None
    with Cons.prems have "validateAdditionalInstructions config sa fp (Suc i) xs = Some []"
      by simp
    then show ?thesis by (rule Cons.IH)
  next
    case (Some r)
    with Cons.prems have "validateAdditionalInstruction config sa fp i x = Some []"
      by simp
    then show ?thesis by (rule validateAdditionalInstruction_reason)
  qed
qed

lemma validateInstructions_invalid_cases:
  assumes "\<not> InstructionValidationResult.isValid (validateInstructions env cfg ixs sa fp)"
  shows "\<exists>r. reason (validateInstructions env cfg ixs sa fp) = Some r
           \<and> (r \<noteq> [] \<or> validateAdditionalInstructions
                 (mergeConfig DEFAULT_VERIFICATION_CONFIG cfg) sa fp 3 (drop 3 ixs) = Some r)"
  using assms
  by (auto simp add: validateInstructions_def Let_def invalidInstructions_def validInstructions_def
      split: if_splits sum.splits option.splits
      dest: verifyComputeLimitInstruction_message verifyComputePriceInstruction_message)

subsection \<open>Facts about \<^verbatim>\<open>verify\<close>\<close>

text \<open>
  Every stage of \<^verbatim>\<open>verify\<close> appends only simulation calls to the trace, returns the
  resolved payer once it has one, and gives every invalid verdict a reason.
\<close>

lemma signAndSimulate_outcome:
  assumes "signAndSimulate signer pl req fp p w = (res, w')"
  shows "\<exists>v cs. res = Inr v \<and> VerifyResponse.payer v = p
           \<and> (\<not> VerifyResponse.isValid v \<longrightarrow> invalidReason v \<noteq> None)
           \<and> calls w' = calls w @ cs \<and> simulationCalls cs"
  using assms
  by (auto simp add: signAndSimulate_def callSignTransaction_def callSimulateTransaction_def
      rejectWith_def simulationCalls_def split: prod.splits sum.splits)

lemma verifyTransfer_outcome:
  assumes "verifyTransfer env signer sa pl req fp ixs idx p w = (res, w')"
  shows "(\<exists>cs. calls w' = calls w @ cs \<and> simulationCalls cs)
         \<and> (\<forall>v. res = Inr v \<longrightarrow> VerifyResponse.payer v = p
               \<and> (\<not> VerifyResponse.isValid v \<longrightarrow> invalidReason v \<noteq> None))"
proof -
  have nil: "calls w = calls w @ [] \<and> simulationCalls []" by (simp add: simulationCalls_def)
  show ?thesis
    using assms nil
    by (auto simp add: verifyTransfer_def Let_def rejectWith_def
        split: list.splits sum.splits if_splits dest!: signAndSimulate_outcome)
qed

lemma verifyStructure_outcome:
  assumes "verifyStructure env signer cfg sa pl req fp w = (res, w')"
  shows "(\<exists>cs. calls w' = calls w @ cs \<and> simulationCalls cs)
         \<and> (\<forall>v. res = Inr v \<and> \<not> VerifyResponse.isValid v \<longrightarrow> invalidReason v \<noteq> None)"
proof -
  have nil: "calls w = calls w @ [] \<and> simulationCalls []" by (simp add: simulationCalls_def)
  show ?thesis
    using assms nil
    by (auto simp add: verifyStructure_def Let_def rejectWith_def
        split: sum.splits if_splits dest!: verifyTransfer_outcome)
qed

lemma verify_outcome:
  assumes "verify env signer cfg pl req w = (res, w')"
  shows "(\<exists>cs. calls w' = calls w @ cs \<and> simulationCalls cs)
         \<and> (\<forall>v. res = Inr v \<and> \<not> VerifyResponse.isValid v \<longrightarrow> invalidReason v \<noteq> None)"
proof -
  have nil: "calls w = calls w @ [] \<and> simulationCalls []" by (simp add: simulationCalls_def)
  show ?thesis
    using assms nil
    by (auto simp add: verify_def Let_def rejectWith_def
        split: option.splits if_splits dest!: verifyStructure_outcome)
qed

text \<open>
  A requirement that \<^verbatim>\<open>verify\<close> accepts has its fee payer, so \<^verbatim>\<open>settle\<close> reads a string
  where it reads \<^verbatim>\<open>requirements.extra.feePayer\<close>.
\<close>

lemma verify_valid_feePayer:
  assumes "verify env signer cfg pl req w = (Inr v, w')" and "VerifyResponse.isValid v"
  shows "requiredFeePayer req \<noteq> None"
proof
  assume "requiredFeePayer req = None"
  with assms show False
    by (auto simp add: verify_def rejectWith_def split: if_splits)
qed

text \<open>
  When the requirement gates pass, the payload decodes and decompiles and the payer
  extraction returns, \<^verbatim>\<open>verify\<close> is the rest of its body from the payer check on.
\<close>

lemma verify_reaches_validation:
  assumes "scheme (accepted pl) = ''exact''" and "scheme req = ''exact''"
    and "PaymentRequirements.network (accepted pl) = PaymentRequirements.network req"
    and "requiredFeePayer req = Some fp"
    and "fp \<in> set (getAddresses signer (signerState w))"
    and "decodeTransactionFromPayload env (ExactSvmPayloadV2.transaction (payload pl)) = Inr tx"
    and "decodeCompiledMessage env tx = Inr cm"
    and "decompileTransactionMessage env cm = Inr (Some ixs)"
    and "getTokenPayerFromTransaction env tx = Inr p"
  shows "verify env signer cfg pl req w =
     (if p = [] then rejectWith ''invalid_exact_svm_payload_no_transfer_instruction'' [] w
      else if \<not> InstructionValidationResult.isValid
                 (validateInstructions env cfg ixs (getAddresses signer (signerState w)) fp)
      then rejectWith
             (case reason (validateInstructions env cfg ixs (getAddresses signer (signerState w)) fp) of
                None \<Rightarrow> ''invalid_instructions'' | Some r \<Rightarrow> r) p w
      else verifyTransfer env signer (getAddresses signer (signerState w)) pl req fp ixs
             (transferInstructionIndex
                (validateInstructions env cfg ixs (getAddresses signer (signerState w)) fp)) p w)"
  using assms by (simp add: verify_def verifyStructure_def Let_def)

lemma signAndSimulate_reason:
  assumes "signAndSimulate signer pl req fp p w = (Inr v, w')"
  shows "invalidReason v \<noteq> Some ''invalid_exact_svm_payload_amount_insufficient''"
  using assms
  by (auto simp add: signAndSimulate_def callSignTransaction_def callSimulateTransaction_def
      rejectWith_def split: prod.splits sum.splits)

lemma signAndSimulate_success:
  assumes "signTransaction signer (ExactSvmPayloadV2.transaction (payload pl)) fp
             (PaymentRequirements.network req) (signerState w) = (Inr stx, s1)"
    and "simulateTransaction signer stx (PaymentRequirements.network req) s1 = (Inr u, s2)"
  shows "\<exists>w'. signAndSimulate signer pl req fp p w =
           (Inr \<lparr> isValid = True, invalidReason = None, payer = p \<rparr>, w')"
  using assms
  by (simp add: signAndSimulate_def callSignTransaction_def callSimulateTransaction_def)

subsection \<open>Facts about the instance\<close>

lemma example_scheme:
  "scheme (accepted (examplePayload t)) = ''exact''" "scheme exampleRequirements = ''exact''"
  by (simp_all add: examplePayload_def exampleRequirements_def)

lemma example_network:
  "PaymentRequirements.network (accepted (examplePayload t)) = PaymentRequirements.network exampleRequirements"
  by (simp add: examplePayload_def)

lemma example_feePayer: "requiredFeePayer exampleRequirements = Some ''FacilitatorFeePayer''"
  by (simp add: requiredFeePayer_def exampleRequirements_def)

lemma example_managed:
  "''FacilitatorFeePayer'' \<in> set (getAddresses (exampleSigner b) (signerState initialWorld))"
  by (simp add: exampleSigner_def)

lemma example_addresses:
  "getAddresses (exampleSigner b) s = [''FacilitatorFeePayer'']"
  by (simp add: exampleSigner_def)

lemma example_decode:
  "decodeTransactionFromPayload (exampleEnv exampleTable)
     (ExactSvmPayloadV2.transaction (payload (examplePayload ''payment'')))
     = Inr (exampleTransaction [limitIx, priceIx, transferIx])"
  "decodeTransactionFromPayload (exampleEnv exampleTable)
     (ExactSvmPayloadV2.transaction (payload (examplePayload ''empty'')))
     = Inr (exampleTransaction [])"
  "decodeTransactionFromPayload (exampleEnv exampleTable)
     (ExactSvmPayloadV2.transaction (payload (examplePayload ''transfer-only'')))
     = Inr (exampleTransaction [transferIx])"
  "decodeTransactionFromPayload (exampleEnv exampleTable)
     (ExactSvmPayloadV2.transaction (payload (examplePayload ''payment-with-memo'')))
     = Inr (exampleTransaction
             [limitIx, priceIx, transferIx, memoIx [\<lparr> address = ''FacilitatorFeePayer'', role = 3 \<rparr>]])"
  "decodeTransactionFromPayload (exampleEnv exampleTable)
     (ExactSvmPayloadV2.transaction (payload (examplePayload ''lookup-table'')))
     = Inr ((exampleTransaction [limitIx, priceIx, transferIx]) \<lparr> usesAddressLookupTable := True \<rparr>)"
  by (simp_all add: exampleEnv_def exampleTable_def examplePayload_def)

lemma example_decodeCompiled: "decodeCompiledMessage (exampleEnv exampleTable) tx = Inr tx"
  by (simp add: exampleEnv_def)

lemma example_decompile:
  "decompileTransactionMessage (exampleEnv exampleTable) (exampleTransaction ixs) = Inr (Some ixs)"
  by (simp add: exampleEnv_def exampleTransaction_def)

lemma example_decompile_fails:
  "decompileTransactionMessage (exampleEnv exampleTable)
     ((exampleTransaction ixs) \<lparr> usesAddressLookupTable := True \<rparr>)
     = Inl (Error ''Failed to decompile: address lookup table contents missing'')"
  by (simp add: exampleEnv_def exampleTransaction_def)

lemma example_payer:
  "getTokenPayerFromTransaction (exampleEnv exampleTable) (exampleTransaction []) = Inr []"
  "getTokenPayerFromTransaction (exampleEnv exampleTable) (exampleTransaction [transferIx])
     = Inr ''ClientTokenAccount''"
  "getTokenPayerFromTransaction (exampleEnv exampleTable)
     (exampleTransaction [limitIx, priceIx, transferIx]) = Inr ''ClientTokenAccount''"
  "getTokenPayerFromTransaction (exampleEnv exampleTable)
     (exampleTransaction [limitIx, priceIx, transferIx, memoIx accs]) = Inr ''ClientTokenAccount''"
  by (simp_all add: exampleEnv_def exampleTransaction_def limitIx_def priceIx_def transferIx_def
      COMPUTE_BUDGET_PROGRAM_ADDRESS_def TOKEN_PROGRAM_ADDRESS_def TOKEN_2022_PROGRAM_ADDRESS_def)

lemma example_payment_valid:
  "InstructionValidationResult.isValid
     (validateInstructions (exampleEnv exampleTable) emptyConfig [limitIx, priceIx, transferIx]
        [''FacilitatorFeePayer''] ''FacilitatorFeePayer'')"
  by code_simp

lemma example_parse_transfer:
  "(if programAddress ([limitIx, priceIx, transferIx] ! 2) = TOKEN_PROGRAM_ADDRESS
    then parseTransferCheckedInstructionToken (exampleEnv exampleTable) ([limitIx, priceIx, transferIx] ! 2)
    else parseTransferCheckedInstruction2022 (exampleEnv exampleTable) ([limitIx, priceIx, transferIx] ! 2))
   = Inr \<lparr> authority = ''ClientWallet'', mint = ''USDCMint'',
           destination = ''ata(Merchant,USDCMint)'', transferAmount = 1000000 \<rparr>"
  by code_simp

lemma example_ata:
  "findAssociatedTokenPda (exampleEnv exampleTable) ''USDCMint'' ''Merchant'' tokenProgram
     = Inr ''ata(Merchant,USDCMint)''"
  by (simp add: exampleEnv_def)

lemma example_BigInt:
  "BigInt (exampleEnv exampleTable) ''1000000'' = Inr 1000000"
  "BigInt (exampleEnv exampleTable) ''1000001'' = Inr 1000001"
  by code_simp+

lemma example_sign:
  "signTransaction (exampleSigner b) tx fp net s = (Inr (''signed:'' @ tx), s)"
  by (simp add: exampleSigner_def)

lemma example_simulate:
  "simulateTransaction (exampleSigner True) tx net s = (Inr (), s)"
  by (simp add: exampleSigner_def)

lemma example_simulation_fails:
  "verify (exampleEnv exampleTable) (exampleSigner False) emptyConfig (examplePayload ''payment'')
     exampleRequirements initialWorld =
   (Inr \<lparr> isValid = False,
          invalidReason = Some ''transaction_simulation_failed: custom program error: 0x1'',
          payer = ''ClientTokenAccount'' \<rparr>,
    \<lparr> signerState = (),
      calls = [SignTransaction ''payment'' ''FacilitatorFeePayer'' ''solana:devnet'',
               SimulateTransaction ''signed:payment'' ''solana:devnet''] \<rparr>)"
  by code_simp

lemma example_transfer_only:
  "verify (exampleEnv exampleTable) (exampleSigner True) emptyConfig (examplePayload ''transfer-only'')
     exampleRequirements initialWorld =
   (Inr \<lparr> isValid = False,
          invalidReason = Some ''invalid_exact_svm_payload_transaction_instructions_length_too_few'',
          payer = ''ClientTokenAccount'' \<rparr>, initialWorld)"
  by code_simp

lemma example_silent:
  "validateInstructions (exampleEnv exampleTable) silentConfig [limitIx, priceIx, transferIx, memoIx []]
     [''FacilitatorFeePayer''] ''FacilitatorFeePayer'' = invalidInstructions []"
  by code_simp

lemma example_four_valid:
  "InstructionValidationResult.isValid
     (validateInstructions (exampleEnv exampleTable) fourInstructionsConfig
        [limitIx, priceIx, transferIx, memoIx []] [''FacilitatorFeePayer''] ''FacilitatorFeePayer'')"
  by code_simp


section \<open>The claims\<close>

subsection \<open>C10: \<^verbatim>\<open>getExtra\<close>\<close>

text \<open>
  C10. For every network argument and every double that \<^verbatim>\<open>Math.random()\<close> can return (a
  double below 1), with the product computed in double arithmetic as the code computes it,
  \<^verbatim>\<open>getExtra\<close> returns a record. When the signer exposes at least one address, the
  record's \<^verbatim>\<open>feePayer\<close> is an element of the signer's address list; when it exposes none,
  the record's \<^verbatim>\<open>feePayer\<close> is undefined. The length of a JavaScript array is below
  \<open>2 ^ 32\<close>.
\<close>

theorem getExtra_feePayer:
  assumes "isDouble random" and "belowOne random" and "length (getAddresses signer s) < 2 ^ 32"
  shows "\<exists>v. getExtra signer s random net = Some \<lparr> feePayer = v \<rparr>
           \<and> (getAddresses signer s \<noteq> [] \<longrightarrow> (\<exists>a \<in> set (getAddresses signer s). v = Some (JsString a)))
           \<and> (getAddresses signer s = [] \<longrightarrow> v = None)"
proof (cases "getAddresses signer s = []")
  case True
  then show ?thesis by (simp add: getExtra_def arrayAt_def Let_def)
next
  case False
  then have n: "0 < length (getAddresses signer s)" by simp
  from assms(3) have n53: "length (getAddresses signer s) < 2 ^ 53" by simp
  from floor_timesLength_less[OF assms(1,2) n n53] arrayAt_in_range
  obtain a where "a \<in> set (getAddresses signer s)"
    and "arrayAt (getAddresses signer s)
           (floorDouble (timesLength random (length (getAddresses signer s)))) = Some a"
    by blast
  then show ?thesis using False by (simp add: getExtra_def Let_def)
qed

text \<open>
  With eleven addresses and the double \<open>0.2727272727272727\<close> the exact product is just
  below 3 and the double product is 3: the code selects the address at index 3.
\<close>

theorem getExtra_feePayer_witness:
  "getExtra elevenSigner () exampleRandom ''solana:devnet''
     = Some \<lparr> feePayer = Some (JsString ''Payer3'') \<rparr>"
proof -
  have d: "isDouble exampleRandom" "belowOne exampleRandom"
    by (simp_all add: isDouble_def belowOne_def exampleRandom_def)
  have a: "getAddresses elevenSigner () = elevenAddresses"
    by (simp add: elevenSigner_def)
  have l: "length elevenAddresses = 11" by (simp add: elevenAddresses_def)
  then have b: "length (getAddresses elevenSigner ()) < 2 ^ 32" unfolding a by simp
  have "floorlog 2 (13510798882111487::nat) = Suc 53"
    by (rule floorlog_2_eqI) simp_all
  then have i: "floorDouble (timesLength exampleRandom 11) = 3"
    by (simp add: timesLength_def roundToDouble_def floorDouble_def roundHalfEven_def Let_def
        exampleRandom_def)
  have at: "arrayAt elevenAddresses 3 = Some ''Payer3''"
    by (simp add: arrayAt_def elevenAddresses_def)
  have ev: "getExtra elevenSigner () exampleRandom ''solana:devnet''
     = Some \<lparr> feePayer = Some (JsString ''Payer3'') \<rparr>"
    unfolding getExtra_def Let_def a l i at by simp
  from getExtra_feePayer[OF d b, of "''solana:devnet''"] ev show ?thesis by simp
qed

subsection \<open>C7: the compute-unit-price instruction\<close>

text \<open>
  What holds of \<^verbatim>\<open>verifyComputePriceInstruction\<close>: it throws the error whose message is the
  compute-price reason when the program address is not the compute budget program, or the
  first data byte is not 3 (or there is none), or the payload does not parse (for a parser
  whose own errors do not mention \<^verbatim>\<open>too_high\<close>, which the \<^verbatim>\<open>catch\<close> looks for). It throws
  the error with the suffix \<^verbatim>\<open>_too_high\<close> exactly when address and discriminator are
  right, the payload parses and the parsed object itself has a property
  \<^verbatim>\<open>microLamports\<close> above the ceiling.
\<close>

lemma verifyComputePriceInstruction_cases:
  assumes "\<forall>m. parseSetComputeUnitPriceInstruction env ix = Inl (Error m)
             \<longrightarrow> \<not> includes_str m ''too_high''"
  shows "(programAddress ix \<noteq> COMPUTE_BUDGET_PROGRAM_ADDRESS \<or> discriminatorDiffers (data ix) 3
            \<or> isl (parseSetComputeUnitPriceInstruction env ix)
          \<longrightarrow> verifyComputePriceInstruction env ix =
                Inl (Error ''invalid_exact_svm_payload_transaction_instructions_compute_price_instruction''))
       \<and> (verifyComputePriceInstruction env ix =
            Inl (Error
              ''invalid_exact_svm_payload_transaction_instructions_compute_price_instruction_too_high'')
          \<longleftrightarrow> programAddress ix = COMPUTE_BUDGET_PROGRAM_ADDRESS \<and> \<not> discriminatorDiffers (data ix) 3
              \<and> (\<exists>parsed price. parseSetComputeUnitPriceInstruction env ix = Inr parsed
                    \<and> topLevelMicroLamports parsed = Some price
                    \<and> price > MAX_COMPUTE_UNIT_PRICE_MICROLAMPORTS env))"
  using assms too_high_includes
  by (auto simp add: verifyComputePriceInstruction_def computePriceTryBlock_def isl_def
      split: sum.splits exn.splits option.splits if_splits)

lemma example_expensive_accepted:
  "verify (exampleEnv exampleTable) (exampleSigner True) emptyConfig
     (examplePayload ''expensive-payment'') exampleRequirements initialWorld =
   (Inr \<lparr> isValid = True, invalidReason = None, payer = ''ClientTokenAccount'' \<rparr>,
    \<lparr> signerState = (),
      calls = [SignTransaction ''expensive-payment'' ''FacilitatorFeePayer'' ''solana:devnet'',
               SimulateTransaction ''signed:expensive-payment'' ''solana:devnet''] \<rparr>)"
  by code_simp

text \<open>
  C7 fails on the code in its second half. The parser returns the price as
  \<^verbatim>\<open>data.microLamports\<close>; the method compares the property \<^verbatim>\<open>microLamports\<close> of the
  parsed object itself, which a result of the parser does not have, and
  \<^verbatim>\<open>undefined > BigInt(...)\<close> is false. So for a compute-unit-price instruction with the
  right address and discriminator that parses to an object without that property, the
  method returns normally although the parsed price strictly exceeds the ceiling: the
  too-high rejection never happens.
\<close>

theorem compute_price_ceiling_not_enforced:
  assumes "programAddress ix = COMPUTE_BUDGET_PROGRAM_ADDRESS"
    and "\<not> discriminatorDiffers (data ix) 3"
    and "parseSetComputeUnitPriceInstruction env ix = Inr parsed"
    and "topLevelMicroLamports parsed = None"
    and "microLamports (priceData parsed) > MAX_COMPUTE_UNIT_PRICE_MICROLAMPORTS env"
  shows "verifyComputePriceInstruction env ix = Inr ()"
  using assms(1-4)
  by (simp add: verifyComputePriceInstruction_def computePriceTryBlock_def)

text \<open>
  A price of 10000000 microlamports, twice the ceiling of 5000000, passes the validation of
  instruction 1, and \<^verbatim>\<open>verify\<close> accepts the payment that carries it.
\<close>

theorem compute_price_ceiling_not_enforced_witness:
  "verifyComputePriceInstruction (exampleEnv exampleTable) expensivePriceIx = Inr ()
   \<and> fst (verify (exampleEnv exampleTable) (exampleSigner True) emptyConfig
            (examplePayload ''expensive-payment'') exampleRequirements initialWorld)
     = Inr \<lparr> isValid = True, invalidReason = None, payer = ''ClientTokenAccount'' \<rparr>"
proof -
  let ?parsed = "\<lparr> priceData = \<lparr> discriminator = 3, microLamports = 10000000 \<rparr>,
                   topLevelMicroLamports = None \<rparr>"
  have a: "programAddress expensivePriceIx = COMPUTE_BUDGET_PROGRAM_ADDRESS"
    and d: "\<not> discriminatorDiffers (data expensivePriceIx) 3"
    by (simp_all add: discriminatorDiffers_def expensivePriceIx_def)
  have p: "parseSetComputeUnitPriceInstruction (exampleEnv exampleTable) expensivePriceIx = Inr ?parsed"
    by (simp add: exampleEnv_def exampleParsePrice_def expensivePriceIx_def)
  have t: "topLevelMicroLamports ?parsed = None" by simp
  have m: "microLamports (priceData ?parsed) > MAX_COMPUTE_UNIT_PRICE_MICROLAMPORTS (exampleEnv exampleTable)"
    by (simp add: exampleEnv_def)
  from compute_price_ceiling_not_enforced[OF a d p t m] show ?thesis
    by (simp add: example_expensive_accepted)
qed

subsection \<open>C4: block list, custom verifiers, allow list\<close>

text \<open>
  C4. For an additional instruction (index 3 or more) the loop body applies, in this order:
  \<^item> a program in \<^verbatim>\<open>blockedProgramIds\<close> is rejected with the blocked-program reason for that
    program, whatever the custom verifiers are (also when one of them matches it);
  \<^item> for a program that is not blocked and that a custom verifier matches, the outcome does
    not depend on \<^verbatim>\<open>allowedProgramIds\<close>: the allow-list check is skipped;
  \<^item> a program that is not blocked, that no custom verifier matches, with an empty
    \<^verbatim>\<open>allowedProgramIds\<close>, is permitted.
  For the whole validation: a list that \<^verbatim>\<open>validateInstructions\<close> accepts has no blocked
  program at any index from 3 on.
\<close>

theorem blocklist_precedence:
  "(programAddress ix \<in> set (blockedProgramIds config) \<longrightarrow>
      validateAdditionalInstruction config sa fp i ix =
        Some (''invalid_exact_svm_payload_blocked_program_'' @ programAddress ix))
   \<and> (programAddress ix \<notin> set (blockedProgramIds config)
        \<and> find (\<lambda>v. programAddress ix \<in> set (programIds v)) (customVerifiers config) \<noteq> None \<longrightarrow>
      validateAdditionalInstruction (config\<lparr> allowedProgramIds := allowed \<rparr>) sa fp i ix =
        validateAdditionalInstruction config sa fp i ix)
   \<and> (programAddress ix \<notin> set (blockedProgramIds config)
        \<and> find (\<lambda>v. programAddress ix \<in> set (programIds v)) (customVerifiers config) = None
        \<and> allowedProgramIds config = [] \<longrightarrow>
      validateAdditionalInstruction config sa fp i ix = None)
   \<and> (InstructionValidationResult.isValid (validateInstructions env cfg ixs sa fp) \<longrightarrow>
        (\<forall>j. 3 \<le> j \<and> j < length ixs \<longrightarrow>
           programAddress (ixs ! j)
             \<notin> set (blockedProgramIds (mergeConfig DEFAULT_VERIFICATION_CONFIG cfg))))"
proof (intro conjI impI allI)
  assume "programAddress ix \<in> set (blockedProgramIds config)"
  then show "validateAdditionalInstruction config sa fp i ix =
        Some (''invalid_exact_svm_payload_blocked_program_'' @ programAddress ix)"
    by (simp add: validateAdditionalInstruction_def)
next
  assume "programAddress ix \<notin> set (blockedProgramIds config)
        \<and> find (\<lambda>v. programAddress ix \<in> set (programIds v)) (customVerifiers config) \<noteq> None"
  then show "validateAdditionalInstruction (config\<lparr> allowedProgramIds := allowed \<rparr>) sa fp i ix =
        validateAdditionalInstruction config sa fp i ix"
    by (auto simp add: validateAdditionalInstruction_def Let_def)
next
  assume "programAddress ix \<notin> set (blockedProgramIds config)
        \<and> find (\<lambda>v. programAddress ix \<in> set (programIds v)) (customVerifiers config) = None
        \<and> allowedProgramIds config = []"
  then show "validateAdditionalInstruction config sa fp i ix = None"
    by (simp add: validateAdditionalInstruction_def)
next
  fix j
  assume v: "InstructionValidationResult.isValid (validateInstructions env cfg ixs sa fp)"
    and j: "3 \<le> j \<and> j < length ixs"
  from j have "drop 3 ixs ! (j - 3) = ixs ! j" and "j - 3 < length (drop 3 ixs)"
    by auto
  then have "ixs ! j \<in> set (drop 3 ixs)"
    by (metis nth_mem)
  with validateInstructions_valid_additional[OF v]
  show "programAddress (ixs ! j)
          \<notin> set (blockedProgramIds (mergeConfig DEFAULT_VERIFICATION_CONFIG cfg))"
    by (rule validateAdditionalInstructions_valid_not_blocked)
qed

theorem blocklist_precedence_witness:
  "validateAdditionalInstruction blockingConfig [''FacilitatorFeePayer''] ''FacilitatorFeePayer'' 3 (memoIx [])
     = Some ''invalid_exact_svm_payload_blocked_program_MemoProgram''
   \<and> validateAdditionalInstruction (memoConfig \<lparr> allowedProgramIds := [''OtherProgram''] \<rparr>)
         [''FacilitatorFeePayer''] ''FacilitatorFeePayer'' 3 (memoIx [])
     = validateAdditionalInstruction memoConfig [''FacilitatorFeePayer''] ''FacilitatorFeePayer'' 3 (memoIx [])
   \<and> validateAdditionalInstruction (mergeConfig DEFAULT_VERIFICATION_CONFIG fourInstructionsConfig)
         [''FacilitatorFeePayer''] ''FacilitatorFeePayer'' 3 (memoIx []) = None
   \<and> programAddress ([limitIx, priceIx, transferIx, memoIx []] ! 3)
       \<notin> set (blockedProgramIds (mergeConfig DEFAULT_VERIFICATION_CONFIG fourInstructionsConfig))"
proof -
  have blocked: "programAddress (memoIx []) \<in> set (blockedProgramIds blockingConfig)"
    by (simp add: memoIx_def blockingConfig_def)
  have matched: "programAddress (memoIx []) \<notin> set (blockedProgramIds memoConfig)
      \<and> find (\<lambda>v. programAddress (memoIx []) \<in> set (programIds v)) (customVerifiers memoConfig) \<noteq> None"
    by (simp add: memoIx_def memoConfig_def memoVerifier_def mergeConfig_def
        fourInstructionsConfig_def emptyConfig_def DEFAULT_VERIFICATION_CONFIG_def)
  have unmatched:
    "programAddress (memoIx [])
       \<notin> set (blockedProgramIds (mergeConfig DEFAULT_VERIFICATION_CONFIG fourInstructionsConfig))
     \<and> find (\<lambda>v. programAddress (memoIx []) \<in> set (programIds v))
         (customVerifiers (mergeConfig DEFAULT_VERIFICATION_CONFIG fourInstructionsConfig)) = None
     \<and> allowedProgramIds (mergeConfig DEFAULT_VERIFICATION_CONFIG fourInstructionsConfig) = []"
    by (simp add: mergeConfig_def fourInstructionsConfig_def emptyConfig_def
        DEFAULT_VERIFICATION_CONFIG_def)
  have idx: "3 \<le> (3::nat) \<and> 3 < length [limitIx, priceIx, transferIx, memoIx []]"
    by simp
  note a = blocklist_precedence[of "memoIx []" blockingConfig "[''FacilitatorFeePayer'']"
      "''FacilitatorFeePayer''" 3, THEN conjunct1, rule_format, OF blocked]
  note b = blocklist_precedence[of "memoIx []" memoConfig "[''FacilitatorFeePayer'']"
      "''FacilitatorFeePayer''" 3 "[''OtherProgram'']",
      THEN conjunct2, THEN conjunct1, rule_format, OF matched]
  note c = blocklist_precedence[of "memoIx []"
      "mergeConfig DEFAULT_VERIFICATION_CONFIG fourInstructionsConfig" "[''FacilitatorFeePayer'']"
      "''FacilitatorFeePayer''" 3,
      THEN conjunct2, THEN conjunct2, THEN conjunct1, rule_format, OF unmatched]
  note d = blocklist_precedence[THEN conjunct2, THEN conjunct2, THEN conjunct2, rule_format,
      OF example_four_valid idx]
  from a have a': "validateAdditionalInstruction blockingConfig [''FacilitatorFeePayer'']
      ''FacilitatorFeePayer'' 3 (memoIx []) = Some ''invalid_exact_svm_payload_blocked_program_MemoProgram''"
    by (simp add: memoIx_def)
  from a' b c d show ?thesis by blast
qed

subsection \<open>C9: the reason of an invalid validation result\<close>

text \<open>
  C9, as the code has it. Every result of \<^verbatim>\<open>validateInstructions\<close> with
  \<^verbatim>\<open>isValid = false\<close> carries a defined reason, so the fallback
  \<^verbatim>\<open>"invalid_instructions"\<close> of \<^verbatim>\<open>verify\<close> is never taken. The reason is non-empty unless
  it is the message of an \<^verbatim>\<open>Error\<close> a custom verifier's callback threw: an empty reason
  implies that a configured custom verifier has a callback that throws an \<^verbatim>\<open>Error\<close> with
  the empty message.
\<close>

theorem validation_reason_defined:
  assumes "\<not> InstructionValidationResult.isValid (validateInstructions env cfg ixs sa fp)"
  shows "\<exists>r. reason (validateInstructions env cfg ixs sa fp) = Some r
           \<and> (r = [] \<longrightarrow>
                (\<exists>v \<in> set (customVerifiers (mergeConfig DEFAULT_VERIFICATION_CONFIG cfg)).
                   \<exists>cb ix ctx. verifyCallback v = Some cb \<and> cb ix ctx = Inl (Error [])))"
proof -
  from validateInstructions_invalid_cases[OF assms]
  obtain r where r: "reason (validateInstructions env cfg ixs sa fp) = Some r"
    and c: "r \<noteq> [] \<or> validateAdditionalInstructions
                 (mergeConfig DEFAULT_VERIFICATION_CONFIG cfg) sa fp 3 (drop 3 ixs) = Some r"
    by blast
  show ?thesis
  proof (cases "r = []")
    case True
    with c have "validateAdditionalInstructions
                 (mergeConfig DEFAULT_VERIFICATION_CONFIG cfg) sa fp 3 (drop 3 ixs) = Some []"
      by simp
    from validateAdditionalInstructions_reason[OF this] r show ?thesis by blast
  next
    case False
    with r show ?thesis by simp
  qed
qed

theorem validation_reason_defined_witness:
  "\<exists>r. reason (validateInstructions (exampleEnv exampleTable) emptyConfig [transferIx]
            [''FacilitatorFeePayer''] ''FacilitatorFeePayer'') = Some r \<and> r \<noteq> []"
proof -
  have e: "validateInstructions (exampleEnv exampleTable) emptyConfig [transferIx]
             [''FacilitatorFeePayer''] ''FacilitatorFeePayer''
           = invalidInstructions ''invalid_exact_svm_payload_transaction_instructions_length_too_few''"
    by (simp add: validateInstructions_def)
  then have h: "\<not> InstructionValidationResult.isValid
      (validateInstructions (exampleEnv exampleTable) emptyConfig [transferIx]
         [''FacilitatorFeePayer''] ''FacilitatorFeePayer'')"
    by (simp add: invalidInstructions_def)
  from validation_reason_defined[OF h] e show ?thesis
    by (simp add: invalidInstructions_def)
qed

text \<open>
  The claim as stated fails: with a custom verifier for the memo program whose callback
  throws \<^verbatim>\<open>new Error()\<close>, the result is invalid and its reason is the empty string.
\<close>

theorem empty_reason_from_custom_verifier:
  "\<not> InstructionValidationResult.isValid
       (validateInstructions (exampleEnv exampleTable) silentConfig
          [limitIx, priceIx, transferIx, memoIx []] [''FacilitatorFeePayer''] ''FacilitatorFeePayer'')
   \<and> reason (validateInstructions (exampleEnv exampleTable) silentConfig
          [limitIx, priceIx, transferIx, memoIx []] [''FacilitatorFeePayer''] ''FacilitatorFeePayer'')
       = Some []"
  by (simp add: example_silent invalidInstructions_def)


subsection \<open>C1: \<^verbatim>\<open>settle\<close> after a failed verification\<close>

text \<open>
  C1, as the code has it. Whenever \<^verbatim>\<open>verify\<close> returns an invalid verdict, that verdict has
  a reason \<open>r\<close>, and \<^verbatim>\<open>settle\<close> returns \<^verbatim>\<open>success = false\<close>, \<^verbatim>\<open>errorReason\<close> equal to \<open>r\<close>,
  the verdict's payer and the empty transaction, in the very world \<^verbatim>\<open>verify\<close> left:
  \<^verbatim>\<open>settle\<close> adds no signer call of its own. The calls made are those of \<^verbatim>\<open>verify\<close>:
  none, or its \<^verbatim>\<open>signTransaction\<close>, or that and its \<^verbatim>\<open>simulateTransaction\<close>; never a
  \<^verbatim>\<open>sendTransaction\<close> or a \<^verbatim>\<open>confirmTransaction\<close>.
\<close>

theorem settle_after_failed_verify:
  assumes "verify env signer cfg pl req w = (Inr v, w1)" and "\<not> VerifyResponse.isValid v"
  shows "\<exists>r cs. invalidReason v = Some r
           \<and> settle env signer cfg pl req w =
               (Inr \<lparr> success = False, transaction = [],
                      network = PaymentRequirements.network (accepted pl),
                      payer = VerifyResponse.payer v, errorReason = Some r \<rparr>, w1)
           \<and> calls w1 = calls w @ cs \<and> simulationCalls cs"
proof -
  from verify_outcome[OF assms(1)] assms(2)
  obtain r cs where "invalidReason v = Some r" and "calls w1 = calls w @ cs" and "simulationCalls cs"
    by auto
  then show ?thesis using assms by (simp add: settle_def)
qed

theorem settle_after_failed_verify_witness:
  "settle (exampleEnv exampleTable) (exampleSigner True) emptyConfig (examplePayload ''transfer-only'')
     exampleRequirements initialWorld =
   (Inr \<lparr> success = False, transaction = [], network = ''solana:devnet'',
          payer = ''ClientTokenAccount'',
          errorReason = Some ''invalid_exact_svm_payload_transaction_instructions_length_too_few'' \<rparr>,
    initialWorld)"
proof -
  have n: "\<not> VerifyResponse.isValid
     \<lparr> isValid = False,
       invalidReason = Some ''invalid_exact_svm_payload_transaction_instructions_length_too_few'',
       payer = ''ClientTokenAccount'' \<rparr>"
    by simp
  from settle_after_failed_verify[OF example_transfer_only n] show ?thesis
    by (auto simp add: examplePayload_def exampleRequirements_def)
qed

text \<open>
  The claim as stated fails: when the simulation fails, \<^verbatim>\<open>verify\<close> returns an invalid
  verdict, and \<^verbatim>\<open>settle\<close> has then called \<^verbatim>\<open>signTransaction\<close> on the signer (inside
  \<^verbatim>\<open>verify\<close>).
\<close>

theorem settle_signs_before_failed_simulation:
  "fst (verify (exampleEnv exampleTable) (exampleSigner False) emptyConfig (examplePayload ''payment'')
          exampleRequirements initialWorld)
     = Inr \<lparr> isValid = False,
             invalidReason = Some ''transaction_simulation_failed: custom program error: 0x1'',
             payer = ''ClientTokenAccount'' \<rparr>
   \<and> calls (snd (settle (exampleEnv exampleTable) (exampleSigner False) emptyConfig
                    (examplePayload ''payment'') exampleRequirements initialWorld))
     = [SignTransaction ''payment'' ''FacilitatorFeePayer'' ''solana:devnet'',
        SimulateTransaction ''signed:payment'' ''solana:devnet'']"
  by (simp add: settle_def example_simulation_fails)

subsection \<open>C2: exceptions that leave \<^verbatim>\<open>verify\<close> and \<^verbatim>\<open>settle\<close>\<close>

text \<open>
  C2 fails on the code. When the requirement gates pass and the payload decodes, an
  exception of the compiled-message decoder, of the decompiler or of the payer extraction
  is caught nowhere: \<^verbatim>\<open>verify\<close> ends with that exception, and so does \<^verbatim>\<open>settle\<close>, which
  calls \<^verbatim>\<open>verify\<close> outside its \<^verbatim>\<open>try\<close>.
\<close>

theorem verify_throws_when_decompilation_fails:
  assumes "scheme (accepted pl) = ''exact''" and "scheme req = ''exact''"
    and "PaymentRequirements.network (accepted pl) = PaymentRequirements.network req"
    and "requiredFeePayer req = Some fp"
    and "fp \<in> set (getAddresses signer (signerState w))"
    and "decodeTransactionFromPayload env (ExactSvmPayloadV2.transaction (payload pl)) = Inr tx"
    and "decodeCompiledMessage env tx = Inl e
         \<or> (\<exists>cm. decodeCompiledMessage env tx = Inr cm
               \<and> (decompileTransactionMessage env cm = Inl e
                    \<or> (\<exists>ixs. decompileTransactionMessage env cm = Inr ixs
                          \<and> getTokenPayerFromTransaction env tx = Inl e)))"
  shows "verify env signer cfg pl req w = (Inl e, w) \<and> settle env signer cfg pl req w = (Inl e, w)"
proof -
  from assms have "verify env signer cfg pl req w = (Inl e, w)"
    by (auto simp add: verify_def verifyStructure_def Let_def)
  then show ?thesis by (simp add: settle_def)
qed

theorem verify_throws_when_decompilation_fails_witness:
  "verify (exampleEnv exampleTable) (exampleSigner True) emptyConfig (examplePayload ''lookup-table'')
     exampleRequirements initialWorld
     = (Inl (Error ''Failed to decompile: address lookup table contents missing''), initialWorld)
   \<and> settle (exampleEnv exampleTable) (exampleSigner True) emptyConfig (examplePayload ''lookup-table'')
       exampleRequirements initialWorld
     = (Inl (Error ''Failed to decompile: address lookup table contents missing''), initialWorld)"
proof -
  have f: "decodeCompiledMessage (exampleEnv exampleTable)
             ((exampleTransaction [limitIx, priceIx, transferIx]) \<lparr> usesAddressLookupTable := True \<rparr>)
             = Inl (Error ''Failed to decompile: address lookup table contents missing'')
         \<or> (\<exists>cm. decodeCompiledMessage (exampleEnv exampleTable)
                   ((exampleTransaction [limitIx, priceIx, transferIx]) \<lparr> usesAddressLookupTable := True \<rparr>)
                   = Inr cm
               \<and> (decompileTransactionMessage (exampleEnv exampleTable) cm
                     = Inl (Error ''Failed to decompile: address lookup table contents missing'')
                    \<or> (\<exists>ixs. decompileTransactionMessage (exampleEnv exampleTable) cm = Inr ixs
                          \<and> getTokenPayerFromTransaction (exampleEnv exampleTable)
                               ((exampleTransaction [limitIx, priceIx, transferIx])
                                  \<lparr> usesAddressLookupTable := True \<rparr>)
                             = Inl (Error ''Failed to decompile: address lookup table contents missing''))))"
    by (simp add: example_decodeCompiled example_decompile_fails)
  show ?thesis
    by (rule verify_throws_when_decompilation_fails[OF example_scheme example_network
          example_feePayer example_managed example_decode(5) f])
qed

subsection \<open>C3: fewer than three instructions\<close>

text \<open>
  C3, as the code has it. Let the requirement gates pass and the payload decode and
  decompile to an instruction list with fewer than 3 entries. The payer is resolved before
  the instructions are counted: when the payer extraction returns a non-empty payer,
  \<^verbatim>\<open>verify\<close> rejects with the too-few reason, whatever the instructions are; when it returns
  the empty string, \<^verbatim>\<open>verify\<close> rejects with
  \<^verbatim>\<open>invalid_exact_svm_payload_no_transfer_instruction\<close> instead.
\<close>

theorem too_few_instructions:
  assumes "scheme (accepted pl) = ''exact''" and "scheme req = ''exact''"
    and "PaymentRequirements.network (accepted pl) = PaymentRequirements.network req"
    and "requiredFeePayer req = Some fp"
    and "fp \<in> set (getAddresses signer (signerState w))"
    and "decodeTransactionFromPayload env (ExactSvmPayloadV2.transaction (payload pl)) = Inr tx"
    and "decodeCompiledMessage env tx = Inr cm"
    and "decompileTransactionMessage env cm = Inr (Some ixs)"
    and "getTokenPayerFromTransaction env tx = Inr p"
    and "length ixs < 3"
  shows "verify env signer cfg pl req w =
           (Inr \<lparr> isValid = False,
                  invalidReason =
                    Some (if p = [] then ''invalid_exact_svm_payload_no_transfer_instruction''
                          else ''invalid_exact_svm_payload_transaction_instructions_length_too_few''),
                  payer = p \<rparr>, w)"
  using assms(10) unfolding verify_reaches_validation[OF assms(1-9)]
  by (simp add: validateInstructions_def Let_def invalidInstructions_def rejectWith_def)

theorem too_few_instructions_witness:
  "verify (exampleEnv exampleTable) (exampleSigner True) fourInstructionsConfig
     (examplePayload ''transfer-only'') exampleRequirements initialWorld =
   (Inr \<lparr> isValid = False,
          invalidReason = Some ''invalid_exact_svm_payload_transaction_instructions_length_too_few'',
          payer = ''ClientTokenAccount'' \<rparr>, initialWorld)"
proof -
  have l: "length [transferIx] < 3" by simp
  from too_few_instructions[OF example_scheme example_network example_feePayer
      example_managed[of True] example_decode(3) example_decodeCompiled example_decompile
      example_payer(2) l, where cfg = fourInstructionsConfig]
  show ?thesis by simp
qed

text \<open>
  The claim as stated fails: the empty instruction list has fewer than 3 entries and the
  requirement gates pass, yet \<^verbatim>\<open>verify\<close> rejects with the no-transfer-instruction reason,
  since no payer is resolved.
\<close>

theorem empty_instruction_list_not_too_few:
  "decompileTransactionMessage (exampleEnv exampleTable) (exampleTransaction []) = Inr (Some [])
   \<and> verify (exampleEnv exampleTable) (exampleSigner True) emptyConfig (examplePayload ''empty'')
       exampleRequirements initialWorld =
     (Inr \<lparr> isValid = False,
            invalidReason = Some ''invalid_exact_svm_payload_no_transfer_instruction'',
            payer = [] \<rparr>, initialWorld)"
  by (simp add: example_decompile verify_reaches_validation[OF example_scheme example_network
        example_feePayer example_managed example_decode(2) example_decodeCompiled example_decompile
        example_payer(1)] rejectWith_def)

subsection \<open>C5: the fee payer among an instruction's accounts\<close>

text \<open>
  C5. Let \<^verbatim>\<open>verify\<close> reach the instruction validation (requirement gates passed, payload
  decoded and decompiled, payer resolved) with at least 3 and at most
  \<^verbatim>\<open>maxInstructionCount\<close> instructions. When the merged configuration has
  \<^verbatim>\<open>requireFeePayerNotInInstructions\<close> and the required fee payer is among the accounts of
  the instruction at some index \<open>i\<close>, whichever it is, \<^verbatim>\<open>verify\<close> rejects with
  \<^verbatim>\<open>invalid_exact_svm_payload_fee_payer_in_instruction_accounts\<close>.
\<close>

theorem fee_payer_in_accounts:
  assumes "scheme (accepted pl) = ''exact''" and "scheme req = ''exact''"
    and "PaymentRequirements.network (accepted pl) = PaymentRequirements.network req"
    and "requiredFeePayer req = Some fp"
    and "fp \<in> set (getAddresses signer (signerState w))"
    and "decodeTransactionFromPayload env (ExactSvmPayloadV2.transaction (payload pl)) = Inr tx"
    and "decodeCompiledMessage env tx = Inr cm"
    and "decompileTransactionMessage env cm = Inr (Some ixs)"
    and "getTokenPayerFromTransaction env tx = Inr p"
    and "p \<noteq> []"
    and "3 \<le> length ixs"
    and "int (length ixs) \<le> maxInstructionCount (mergeConfig DEFAULT_VERIFICATION_CONFIG cfg)"
    and "requireFeePayerNotInInstructions (mergeConfig DEFAULT_VERIFICATION_CONFIG cfg)"
    and "i < length ixs"
    and "accounts (ixs ! i) = Some accs"
    and "fp \<in> address ` set accs"
  shows "verify env signer cfg pl req w =
           (Inr \<lparr> isValid = False,
                  invalidReason = Some ''invalid_exact_svm_payload_fee_payer_in_instruction_accounts'',
                  payer = p \<rparr>, w)"
proof -
  from assms(15,16) have "instructionIncludesAccount (ixs ! i) fp"
    by (auto simp add: instructionIncludesAccount_def list_ex_iff)
  with assms(14) have "list_ex (\<lambda>ix. instructionIncludesAccount ix fp) ixs"
    unfolding list_ex_iff using nth_mem by blast
  with assms(10-13) show ?thesis
    unfolding verify_reaches_validation[OF assms(1-9)]
    by (simp add: validateInstructions_def Let_def invalidInstructions_def rejectWith_def)
qed

theorem fee_payer_in_accounts_witness:
  "verify (exampleEnv exampleTable) (exampleSigner True) fourInstructionsConfig
     (examplePayload ''payment-with-memo'') exampleRequirements initialWorld =
   (Inr \<lparr> isValid = False,
          invalidReason = Some ''invalid_exact_svm_payload_fee_payer_in_instruction_accounts'',
          payer = ''ClientTokenAccount'' \<rparr>, initialWorld)"
proof -
  let ?memo = "memoIx [\<lparr> address = ''FacilitatorFeePayer'', role = 3 \<rparr>]"
  let ?ixs = "[limitIx, priceIx, transferIx, ?memo]"
  have p: "''ClientTokenAccount'' \<noteq> []" by simp
  have l: "3 \<le> length ?ixs" by simp
  have m: "int (length ?ixs)
      \<le> maxInstructionCount (mergeConfig DEFAULT_VERIFICATION_CONFIG fourInstructionsConfig)"
    by (simp add: mergeConfig_def fourInstructionsConfig_def emptyConfig_def)
  have r: "requireFeePayerNotInInstructions (mergeConfig DEFAULT_VERIFICATION_CONFIG fourInstructionsConfig)"
    by (simp add: mergeConfig_def fourInstructionsConfig_def emptyConfig_def
        DEFAULT_VERIFICATION_CONFIG_def)
  have i: "3 < length ?ixs" by simp
  have a: "accounts (?ixs ! 3) = Some [\<lparr> address = ''FacilitatorFeePayer'', role = 3 \<rparr>]"
    by (simp add: memoIx_def)
  have f: "''FacilitatorFeePayer'' \<in> address ` set [\<lparr> address = ''FacilitatorFeePayer'', role = 3 \<rparr>]"
    by simp
  show ?thesis
    by (rule fee_payer_in_accounts[OF example_scheme example_network example_feePayer
          example_managed example_decode(4) example_decodeCompiled example_decompile
          example_payer(4) p l m r i a f])
qed


subsection \<open>C6: the amount check\<close>

text \<open>
  C6. Let \<^verbatim>\<open>verify\<close> reach the amount check: the requirement gates pass, the payload
  decodes and decompiles, the payer is resolved, the instructions are valid, the transfer
  instruction parses, its authority is not an address of the signer, its mint is the
  required asset, its destination is the derived token account, and the required amount
  converts to an integer. Then
  \<^item> if the transferred amount is strictly less than the required amount, \<^verbatim>\<open>verify\<close> rejects
    with \<^verbatim>\<open>invalid_exact_svm_payload_amount_insufficient\<close>;
  \<^item> if it is equal or greater, \<^verbatim>\<open>verify\<close> goes on to sign and simulate, never returns that
    reason, and accepts when signing and simulation succeed.
\<close>

theorem amount_check:
  assumes "scheme (accepted pl) = ''exact''" and "scheme req = ''exact''"
    and "PaymentRequirements.network (accepted pl) = PaymentRequirements.network req"
    and "requiredFeePayer req = Some fp"
    and "fp \<in> set (getAddresses signer (signerState w))"
    and "decodeTransactionFromPayload env (ExactSvmPayloadV2.transaction (payload pl)) = Inr tx"
    and "decodeCompiledMessage env tx = Inr cm"
    and "decompileTransactionMessage env cm = Inr (Some ixs)"
    and "getTokenPayerFromTransaction env tx = Inr p"
    and "p \<noteq> []"
    and "InstructionValidationResult.isValid
           (validateInstructions env cfg ixs (getAddresses signer (signerState w)) fp)"
    and "(if programAddress (ixs ! 2) = TOKEN_PROGRAM_ADDRESS
          then parseTransferCheckedInstructionToken env (ixs ! 2)
          else parseTransferCheckedInstruction2022 env (ixs ! 2)) = Inr parsed"
    and "authority parsed \<notin> set (getAddresses signer (signerState w))"
    and "mint parsed = asset req"
    and "findAssociatedTokenPda env (asset req) (payTo req)
           (if programAddress (ixs ! 2) = TOKEN_PROGRAM_ADDRESS then TOKEN_PROGRAM_ADDRESS
            else TOKEN_2022_PROGRAM_ADDRESS) = Inr (destination parsed)"
    and "BigInt env (amount req) = Inr required"
  shows "(transferAmount parsed < required \<longrightarrow>
            verify env signer cfg pl req w =
              (Inr \<lparr> isValid = False,
                     invalidReason = Some ''invalid_exact_svm_payload_amount_insufficient'',
                     payer = p \<rparr>, w))
       \<and> (required \<le> transferAmount parsed \<longrightarrow>
            verify env signer cfg pl req w = signAndSimulate signer pl req fp p w
            \<and> (\<forall>v w'. verify env signer cfg pl req w = (Inr v, w') \<longrightarrow>
                  invalidReason v \<noteq> Some ''invalid_exact_svm_payload_amount_insufficient'')
            \<and> (\<forall>stx s1 u s2.
                  signTransaction signer (ExactSvmPayloadV2.transaction (payload pl)) fp
                    (PaymentRequirements.network req) (signerState w) = (Inr stx, s1)
                  \<and> simulateTransaction signer stx (PaymentRequirements.network req) s1 = (Inr u, s2)
                  \<longrightarrow> (\<exists>w'. verify env signer cfg pl req w =
                               (Inr \<lparr> isValid = True, invalidReason = None, payer = p \<rparr>, w'))))"
proof -
  let ?sa = "getAddresses signer (signerState w)"
  from validateInstructions_valid[OF assms(11)]
  have len: "3 \<le> length ixs"
    and idx: "transferInstructionIndex (validateInstructions env cfg ixs ?sa fp) = 2"
    and prog: "programAddress (ixs ! 2) = TOKEN_PROGRAM_ADDRESS
               \<or> programAddress (ixs ! 2) = TOKEN_2022_PROGRAM_ADDRESS"
    by simp_all
  from len have "2 < length ixs" by simp
  then have "ixs ! 2 # drop (Suc 2) ixs = drop 2 ixs" by (rule Cons_nth_drop_Suc)
  then have dr: "drop 2 ixs = ixs ! 2 # drop 3 ixs" by simp
  have v: "verify env signer cfg pl req w = verifyTransfer env signer ?sa pl req fp ixs 2 p w"
    unfolding verify_reaches_validation[OF assms(1-9)] using assms(10,11) idx by simp
  have t: "verifyTransfer env signer ?sa pl req fp ixs 2 p w =
             (if transferAmount parsed < required
              then rejectWith ''invalid_exact_svm_payload_amount_insufficient'' p w
              else signAndSimulate signer pl req fp p w)"
    using prog assms(12-16) by (auto simp add: verifyTransfer_def dr Let_def)
  show ?thesis
  proof (intro conjI impI allI)
    assume "transferAmount parsed < required"
    then show "verify env signer cfg pl req w =
              (Inr \<lparr> isValid = False,
                     invalidReason = Some ''invalid_exact_svm_payload_amount_insufficient'',
                     payer = p \<rparr>, w)"
      unfolding v t by (simp add: rejectWith_def)
  next
    assume "required \<le> transferAmount parsed"
    then show "verify env signer cfg pl req w = signAndSimulate signer pl req fp p w"
      unfolding v t by simp
  next
    fix r w'
    assume "required \<le> transferAmount parsed" and "verify env signer cfg pl req w = (Inr r, w')"
    then have "signAndSimulate signer pl req fp p w = (Inr r, w')"
      unfolding v t by simp
    then show "invalidReason r \<noteq> Some ''invalid_exact_svm_payload_amount_insufficient''"
      by (rule signAndSimulate_reason)
  next
    fix stx s1 u s2
    assume "required \<le> transferAmount parsed"
      and "signTransaction signer (ExactSvmPayloadV2.transaction (payload pl)) fp
                    (PaymentRequirements.network req) (signerState w) = (Inr stx, s1)
                  \<and> simulateTransaction signer stx (PaymentRequirements.network req) s1 = (Inr u, s2)"
    then show "\<exists>w'. verify env signer cfg pl req w =
                               (Inr \<lparr> isValid = True, invalidReason = None, payer = p \<rparr>, w')"
      unfolding v t using signAndSimulate_success[of signer pl fp req w stx s1 u s2 p] by simp
  qed
qed

text \<open>
  The payment of exactly 1000000 units is accepted for a requirement of 1000000 and
  rejected as insufficient for a requirement of 1000001.
\<close>

theorem amount_check_witness:
  "(\<exists>w'. verify (exampleEnv exampleTable) (exampleSigner True) emptyConfig (examplePayload ''payment'')
            exampleRequirements initialWorld
          = (Inr \<lparr> isValid = True, invalidReason = None, payer = ''ClientTokenAccount'' \<rparr>, w'))
   \<and> verify (exampleEnv exampleTable) (exampleSigner True) emptyConfig (examplePayload ''payment'')
       (exampleRequirements \<lparr> amount := ''1000001'' \<rparr>) initialWorld
     = (Inr \<lparr> isValid = False,
              invalidReason = Some ''invalid_exact_svm_payload_amount_insufficient'',
              payer = ''ClientTokenAccount'' \<rparr>, initialWorld)"
proof -
  let ?parsed = "\<lparr> authority = ''ClientWallet'', mint = ''USDCMint'',
                   destination = ''ata(Merchant,USDCMint)'', transferAmount = 1000000 \<rparr>"
  let ?req' = "exampleRequirements \<lparr> amount := ''1000001'' \<rparr>"
  have p: "''ClientTokenAccount'' \<noteq> []" by simp
  have valid: "InstructionValidationResult.isValid
     (validateInstructions (exampleEnv exampleTable) emptyConfig [limitIx, priceIx, transferIx]
        (getAddresses (exampleSigner True) (signerState initialWorld)) ''FacilitatorFeePayer'')"
    unfolding example_addresses by (rule example_payment_valid)
  have auth: "authority ?parsed \<notin> set (getAddresses (exampleSigner True) (signerState initialWorld))"
    by (simp add: example_addresses)
  have mint1: "mint ?parsed = asset exampleRequirements"
    and mint2: "mint ?parsed = asset ?req'"
    by (simp_all add: exampleRequirements_def)
  have ata1: "findAssociatedTokenPda (exampleEnv exampleTable) (asset exampleRequirements)
      (payTo exampleRequirements)
      (if programAddress ([limitIx, priceIx, transferIx] ! 2) = TOKEN_PROGRAM_ADDRESS
       then TOKEN_PROGRAM_ADDRESS else TOKEN_2022_PROGRAM_ADDRESS) = Inr (destination ?parsed)"
    and ata2: "findAssociatedTokenPda (exampleEnv exampleTable) (asset ?req') (payTo ?req')
      (if programAddress ([limitIx, priceIx, transferIx] ! 2) = TOKEN_PROGRAM_ADDRESS
       then TOKEN_PROGRAM_ADDRESS else TOKEN_2022_PROGRAM_ADDRESS) = Inr (destination ?parsed)"
    by (simp_all add: exampleRequirements_def example_ata)
  have big1: "BigInt (exampleEnv exampleTable) (amount exampleRequirements) = Inr 1000000"
    and big2: "BigInt (exampleEnv exampleTable) (amount ?req') = Inr 1000001"
    by (simp_all add: exampleRequirements_def example_BigInt)
  have req': "scheme ?req' = ''exact''"
    "PaymentRequirements.network (accepted (examplePayload ''payment'')) = PaymentRequirements.network ?req'"
    "requiredFeePayer ?req' = Some ''FacilitatorFeePayer''"
    by (simp_all add: exampleRequirements_def examplePayload_def requiredFeePayer_def)
  note equal = amount_check[OF example_scheme example_network example_feePayer
      example_managed[of True] example_decode(1) example_decodeCompiled example_decompile
      example_payer(3) p valid example_parse_transfer auth mint1 ata1 big1]
  note less = amount_check[OF example_scheme(1) req' example_managed[of True] example_decode(1)
      example_decodeCompiled example_decompile example_payer(3) p valid example_parse_transfer
      auth mint2 ata2 big2]
  have sim: "signTransaction (exampleSigner True)
        (ExactSvmPayloadV2.transaction (payload (examplePayload ''payment''))) ''FacilitatorFeePayer''
        (PaymentRequirements.network exampleRequirements) (signerState initialWorld)
        = (Inr (''signed:'' @ ExactSvmPayloadV2.transaction (payload (examplePayload ''payment''))),
           signerState initialWorld)
     \<and> simulateTransaction (exampleSigner True)
        (''signed:'' @ ExactSvmPayloadV2.transaction (payload (examplePayload ''payment'')))
        (PaymentRequirements.network exampleRequirements) (signerState initialWorld)
        = (Inr (), signerState initialWorld)"
    by (simp add: example_sign example_simulate)
  have le: "(1000000::int) \<le> transferAmount ?parsed" by simp
  have lt: "transferAmount ?parsed < (1000001::int)" by simp
  note passes = equal[THEN conjunct2, rule_format, OF le]
  note accepts = passes[THEN conjunct2, THEN conjunct2, rule_format, OF sim]
  note rejected = less[THEN conjunct1, rule_format, OF lt]
  from accepts rejected show ?thesis by (rule conjI)
qed

subsection \<open>C8: the resolved payer in later verdicts\<close>

text \<open>
  C8. Once \<^verbatim>\<open>verify\<close> has resolved a non-empty payer (requirement gates passed, payload
  decoded and decompiled, payer extraction returned it), every verdict \<^verbatim>\<open>verify\<close> returns,
  and so every failure verdict of the instruction validation, of the transfer verification
  and of signing and simulation, carries that payer in its \<^verbatim>\<open>payer\<close> field.
\<close>

theorem payer_preserved:
  assumes "scheme (accepted pl) = ''exact''" and "scheme req = ''exact''"
    and "PaymentRequirements.network (accepted pl) = PaymentRequirements.network req"
    and "requiredFeePayer req = Some fp"
    and "fp \<in> set (getAddresses signer (signerState w))"
    and "decodeTransactionFromPayload env (ExactSvmPayloadV2.transaction (payload pl)) = Inr tx"
    and "decodeCompiledMessage env tx = Inr cm"
    and "decompileTransactionMessage env cm = Inr (Some ixs)"
    and "getTokenPayerFromTransaction env tx = Inr p"
    and "p \<noteq> []"
    and "verify env signer cfg pl req w = (Inr v, w')"
  shows "VerifyResponse.payer v = p"
  using assms(10,11) unfolding verify_reaches_validation[OF assms(1-9)]
  by (auto simp add: rejectWith_def split: if_splits dest!: verifyTransfer_outcome)

theorem payer_preserved_witness:
  "VerifyResponse.payer
     \<lparr> isValid = False,
       invalidReason = Some ''transaction_simulation_failed: custom program error: 0x1'',
       payer = ''ClientTokenAccount'' \<rparr> = ''ClientTokenAccount''
   \<and> fst (verify (exampleEnv exampleTable) (exampleSigner False) emptyConfig (examplePayload ''payment'')
            exampleRequirements initialWorld)
     = Inr \<lparr> isValid = False,
             invalidReason = Some ''transaction_simulation_failed: custom program error: 0x1'',
             payer = ''ClientTokenAccount'' \<rparr>"
proof -
  have p: "''ClientTokenAccount'' \<noteq> []" by simp
  from payer_preserved[OF example_scheme example_network example_feePayer example_managed[of False]
      example_decode(1) example_decodeCompiled example_decompile example_payer(3) p
      example_simulation_fails]
  show ?thesis by (simp add: example_simulation_fails)
qed


end
